theory Spec2Isabelle
  imports Complex_Main
begin

section \<open>Exceptions\<close>

text \<open>
  Every function of \<^verbatim>\<open>model_factory_sample.py\<close> runs its body under
  \<^verbatim>\<open>try: ... except Exception as e: raise HousingException(e,sys) from e\<close>.
  A raised exception is a value \<open>Inl e\<close> of the result type \<open>exn + 'a\<close>.

  Modelled from the spec: the class \<^verbatim>\<open>HousingException\<close> is imported from
  \<^verbatim>\<open>housing.exception\<close>, which is not among the source files. The spec (section 7) says
  that all failures are wrapped into a single domain exception carrying the original cause;
  the constructor \<open>HousingException\<close> below carries that cause. It is an exception itself,
  so an outer handler wraps it again.

  The scores of the search results are only compared with each other and with the base
  accuracy, so they are read as the real numbers they denote. The accuracies of
  \<^verbatim>\<open>evaluate_regression_model\<close> are computed with, and are binary64 values.
\<close>

datatype exn =
    KeyError string
  | TypeError string
  | ValueError string
  | AttributeError string
  | ModuleNotFoundError string
  | ZeroDivisionError
  | SyntaxError string
  | Exception string
  | NoneOfTheModelHasBaseAccuracy real
  | HousingException exn

text \<open>\<^verbatim>\<open>NoneOfTheModelHasBaseAccuracy b\<close> is
  \<^verbatim>\<open>Exception(f"None of the model has base accuracy:{base_accuracy}")\<close> with \<open>b\<close> the
  value of \<^verbatim>\<open>base_accuracy\<close> when it is raised.\<close>

definition bind_exn :: "exn + 'a \<Rightarrow> ('a \<Rightarrow> exn + 'b) \<Rightarrow> exn + 'b" where
  "bind_exn r f = (case r of Inl e \<Rightarrow> Inl e | Inr v \<Rightarrow> f v)"

definition housing_try :: "exn + 'a \<Rightarrow> exn + 'a" where
  "housing_try r = (case r of Inl e \<Rightarrow> Inl (HousingException e) | Inr v \<Rightarrow> Inr v)"

section \<open>Binary64 arithmetic\<close>

text \<open>
  The accuracies of \<^verbatim>\<open>evaluate_regression_model\<close> are floats, and each arithmetic
  operation on them rounds its exact result to the nearest binary64 value, ties to the
  even significand. A finite float is the real number it denotes; besides these there are
  the two infinities and NaN. The two zeros are not told apart: they compare equal, and
  Python's \<^verbatim>\<open>/\<close> raises for either of them.
\<close>

datatype float64 = Finite real | PlusInf | MinusInf | NaN

text \<open>The nearest integer, a tie going to the even one.\<close>

definition round_half_even :: "real \<Rightarrow> int" where
  "round_half_even y =
     (let f = \<lfloor>y\<rfloor>; d = y - of_int f
      in if d < 1/2 then f else if 1/2 < d then f + 1 else if even f then f else f + 1)"

text \<open>
  The binary exponent of a positive number \<open>x\<close>, the \<open>e\<close> with \<open>2 powi e \<le> x < 2 powi (e + 1)\<close>, found
  by halving or doubling at most \<open>n\<close> times. Below \<open>2 powi (- 1022)\<close> the floats are subnormal and
  keep the exponent \<open>-1022\<close>.
\<close>

fun exponent_search :: "nat \<Rightarrow> real \<Rightarrow> int" where
  "exponent_search 0 x = 0"
| "exponent_search (Suc n) x =
     (if 2 \<le> x then exponent_search n (x / 2) + 1
      else if x < 1 then exponent_search n (2 * x) - 1
      else 0)"

definition float_exponent :: "real \<Rightarrow> int" where
  "float_exponent x = max (exponent_search 2200 \<bar>x\<bar>) (- 1022)"

text \<open>
  Rounding to binary64: the significand has 53 bits, so the floats around \<open>x\<close> are the
  multiples of \<open>2 powi (e - 52)\<close>; a result of magnitude \<open>2 ^ 1024\<close> or more is an infinity.
\<close>

definition round64 :: "real \<Rightarrow> float64" where
  "round64 x =
     (if x = 0 then Finite 0
      else let u = 2 powi (float_exponent x - 52);
               r = u * of_int (round_half_even (x / u))
           in if 2 ^ 1024 \<le> \<bar>r\<bar> then (if 0 < x then PlusInf else MinusInf)
              else Finite r)"

fun fneg :: "float64 \<Rightarrow> float64" where
  "fneg (Finite x) = Finite (- x)"
| "fneg PlusInf = MinusInf"
| "fneg MinusInf = PlusInf"
| "fneg NaN = NaN"

text \<open>\<^verbatim>\<open>abs(x)\<close>.\<close>

fun fabs :: "float64 \<Rightarrow> float64" where
  "fabs (Finite x) = Finite \<bar>x\<bar>"
| "fabs PlusInf = PlusInf"
| "fabs MinusInf = PlusInf"
| "fabs NaN = NaN"

text \<open>The sign of a float as \<open>-1\<close>, \<open>0\<close> or \<open>1\<close>, and the infinity of a given sign; the
  product of an infinity and a zero is NaN.\<close>

fun fsign :: "float64 \<Rightarrow> int" where
  "fsign (Finite x) = (if x < 0 then - 1 else if x = 0 then 0 else 1)"
| "fsign PlusInf = 1"
| "fsign MinusInf = - 1"
| "fsign NaN = 0"

definition signed_infinity :: "int \<Rightarrow> float64" where
  "signed_infinity s = (if s = 0 then NaN else if 0 < s then PlusInf else MinusInf)"

text \<open>\<^verbatim>\<open>x + y\<close>, \<^verbatim>\<open>x - y\<close> and \<^verbatim>\<open>x * y\<close>.\<close>

definition fadd :: "float64 \<Rightarrow> float64 \<Rightarrow> float64" where
  "fadd x y =
     (case (x, y) of
        (Finite a, Finite b) \<Rightarrow> round64 (a + b)
      | (NaN, _) \<Rightarrow> NaN
      | (_, NaN) \<Rightarrow> NaN
      | (PlusInf, MinusInf) \<Rightarrow> NaN
      | (MinusInf, PlusInf) \<Rightarrow> NaN
      | (PlusInf, _) \<Rightarrow> PlusInf
      | (MinusInf, _) \<Rightarrow> MinusInf
      | (_, PlusInf) \<Rightarrow> PlusInf
      | (_, MinusInf) \<Rightarrow> MinusInf)"

definition fsub :: "float64 \<Rightarrow> float64 \<Rightarrow> float64" where
  "fsub x y = fadd x (fneg y)"

definition fmul :: "float64 \<Rightarrow> float64 \<Rightarrow> float64" where
  "fmul x y =
     (case (x, y) of
        (Finite a, Finite b) \<Rightarrow> round64 (a * b)
      | (NaN, _) \<Rightarrow> NaN
      | (_, NaN) \<Rightarrow> NaN
      | _ \<Rightarrow> signed_infinity (fsign x * fsign y))"

text \<open>
  The IEEE quotient, which is what NumPy's scalars compute also for a zero divisor (with
  a warning): a zero over a zero is NaN, anything else over a zero an infinity. The zero
  divisor is taken as the positive one, which is what an exact cancellation
  \<^verbatim>\<open>train_acc + test_acc\<close> produces.
\<close>

definition fdiv :: "float64 \<Rightarrow> float64 \<Rightarrow> float64" where
  "fdiv x y =
     (case (x, y) of
        (Finite a, Finite b) \<Rightarrow>
          (if b = 0 then signed_infinity (fsign x) else round64 (a / b))
      | (NaN, _) \<Rightarrow> NaN
      | (_, NaN) \<Rightarrow> NaN
      | (Finite a, _) \<Rightarrow> Finite 0
      | (_, Finite b) \<Rightarrow> signed_infinity (fsign x * (if b < 0 then - 1 else 1))
      | _ \<Rightarrow> NaN)"

text \<open>\<^verbatim>\<open>x < y\<close> and \<^verbatim>\<open>x <= y\<close>; every comparison with NaN is false.\<close>

definition flt :: "float64 \<Rightarrow> float64 \<Rightarrow> bool" where
  "flt x y =
     (case (x, y) of
        (Finite a, Finite b) \<Rightarrow> a < b
      | (NaN, _) \<Rightarrow> False
      | (_, NaN) \<Rightarrow> False
      | (_, MinusInf) \<Rightarrow> False
      | (MinusInf, _) \<Rightarrow> True
      | (PlusInf, _) \<Rightarrow> False
      | (_, PlusInf) \<Rightarrow> True)"

definition fle :: "float64 \<Rightarrow> float64 \<Rightarrow> bool" where
  "fle x y =
     (case (x, y) of
        (Finite a, Finite b) \<Rightarrow> a \<le> b
      | (NaN, _) \<Rightarrow> False
      | (_, NaN) \<Rightarrow> False
      | (MinusInf, _) \<Rightarrow> True
      | (_, PlusInf) \<Rightarrow> True
      | _ \<Rightarrow> False)"

text \<open>
  The result of \<^verbatim>\<open>r2_score\<close> is a built-in Python float or a NumPy \<^verbatim>\<open>float64\<close> scalar,
  depending on the toolkit; the two differ in what \<^verbatim>\<open>/\<close> does with a zero divisor: the
  first raises \<^verbatim>\<open>ZeroDivisionError\<close>, the second follows IEEE.
\<close>

datatype float_kind = PyFloat | NumpyFloat64

definition truediv :: "float_kind \<Rightarrow> float64 \<Rightarrow> float64 \<Rightarrow> exn + float64" where
  "truediv kind x y =
     (if y = Finite 0 \<and> kind = PyFloat then Inl ZeroDivisionError else Inr (fdiv x y))"

text \<open>Line 119: \<^verbatim>\<open>model_accuracy = (2*(train_acc * test_acc)/(train_acc + test_acc))\<close>. The
  integer \<^verbatim>\<open>2\<close> becomes the float \<^verbatim>\<open>2.0\<close>.\<close>

definition model_accuracy_of :: "float_kind \<Rightarrow> float64 \<Rightarrow> float64 \<Rightarrow> exn + float64" where
  "model_accuracy_of kind train_acc test_acc =
     truediv kind (fmul (Finite 2) (fmul train_acc test_acc)) (fadd train_acc test_acc)"

section \<open>Search results and the selection policy\<close>

text \<open>The named tuple \<^verbatim>\<open>GridSearchedBestModel\<close> (lines 24-28). The fields
  \<^verbatim>\<open>model_serial_number\<close> and \<^verbatim>\<open>model\<close> carry the prefix \<open>searched_\<close>, since
  \<^verbatim>\<open>InitialisedModelDetail\<close> has fields of the same names.\<close>

record ('obj, 'params) GridSearchedBestModel =
  searched_model_serial_number :: string
  searched_model :: 'obj
  best_model :: 'obj
  best_parameters :: 'params
  best_score :: real

text \<open>
  The loop of \<^verbatim>\<open>get_best_model_from_grid_searched_best_model_list\<close> (lines 323-334).
  The \<^verbatim>\<open>raise\<close> and the \<^verbatim>\<open>return\<close> are inside the loop body, so the body of the
  first iteration always leaves the function and the rest of the list is never read.
  A named tuple of five fields is truthy, so \<^verbatim>\<open>not best_model\<close> holds exactly when
  \<^verbatim>\<open>best_model\<close> is \<^verbatim>\<open>None\<close>. With no iteration the function falls off its end and
  returns \<^verbatim>\<open>None\<close>.
\<close>

fun best_model_loop ::
  "real \<Rightarrow> ('obj, 'params) GridSearchedBestModel option
    \<Rightarrow> ('obj, 'params) GridSearchedBestModel list
    \<Rightarrow> exn + ('obj, 'params) GridSearchedBestModel option" where
  "best_model_loop base_accuracy best [] = Inr None"
| "best_model_loop base_accuracy best (grid_searched_best_model # rest) =
     (let (base_accuracy', best') =
            (if base_accuracy < best_score grid_searched_best_model
             then (best_score grid_searched_best_model, Some grid_searched_best_model)
             else (base_accuracy, best))
      in (case best' of
            None \<Rightarrow> Inl (NoneOfTheModelHasBaseAccuracy base_accuracy')
          | Some b \<Rightarrow> Inr (Some b)))"

definition get_best_model_from_grid_searched_best_model_list ::
  "('obj, 'params) GridSearchedBestModel list \<Rightarrow> real
    \<Rightarrow> exn + ('obj, 'params) GridSearchedBestModel option" where
  "get_best_model_from_grid_searched_best_model_list grid_searched_best_model_list base_accuracy =
     housing_try (best_model_loop base_accuracy None grid_searched_best_model_list)"

text \<open>
  The selection policy in the spec's words (section 4.4), for comparison with the code:
  scan the whole sequence, a result qualifies if its score strictly exceeds the running
  threshold, the threshold is raised to each qualifying score, the last qualifying result is
  returned, and the failure is signalled only after the scan, when nothing qualified.
\<close>

fun select_best_scan ::
  "real \<Rightarrow> ('obj, 'params) GridSearchedBestModel option
    \<Rightarrow> ('obj, 'params) GridSearchedBestModel list
    \<Rightarrow> ('obj, 'params) GridSearchedBestModel option" where
  "select_best_scan threshold best [] = best"
| "select_best_scan threshold best (r # rs) =
     (if threshold < best_score r then select_best_scan (best_score r) (Some r) rs
      else select_best_scan threshold best rs)"

definition select_best_spec ::
  "('obj, 'params) GridSearchedBestModel list \<Rightarrow> real
    \<Rightarrow> exn + ('obj, 'params) GridSearchedBestModel option" where
  "select_best_spec results base_accuracy =
     (case select_best_scan base_accuracy None results of
        None \<Rightarrow> Inl (HousingException (NoneOfTheModelHasBaseAccuracy base_accuracy))
      | Some b \<Rightarrow> Inr (Some b))"

text \<open>A search result with the given serial number and score, and nothing else of interest.\<close>

definition result_with_score :: "string \<Rightarrow> real \<Rightarrow> (unit, unit) GridSearchedBestModel" where
  "result_with_score serial score =
     \<lparr>searched_model_serial_number = serial, searched_model = (), best_model = (),
      best_parameters = (), best_score = score\<rparr>"

section \<open>The configuration document\<close>

text \<open>
  \<^verbatim>\<open>read_params\<close> opens the file and returns what \<^verbatim>\<open>yaml.safe_load\<close> makes of it. The
  file system and the YAML parser are outside the source; the model starts from the parsed
  document. A mapping keeps the order of its entries, as a Python dictionary does, and its
  keys are distinct strings.
\<close>

datatype yaml =
    YNull
  | YBool bool
  | YInt int
  | YStr string
  | YSeq "yaml list"
  | YMap "(string \<times> yaml) list"

definition MODEL_SELECTION_KEY :: string where
  "MODEL_SELECTION_KEY = ''model_selection''"

definition MODULE_KEY :: string where
  "MODULE_KEY = ''module''"

definition CLASS_KEY :: string where
  "CLASS_KEY = ''class''"

definition PARAM_KEY :: string where
  "PARAM_KEY = ''params''"

definition SEARCH_PARAM_GRID_KEY :: string where
  "SEARCH_PARAM_GRID_KEY = ''search_param_grid''"

definition GRID_SEARCH_KEY :: string where
  "GRID_SEARCH_KEY = ''grid_search''"

text \<open>\<^verbatim>\<open>d[k]\<close>: a missing key raises \<^verbatim>\<open>KeyError\<close>, a value that is no mapping raises
  \<^verbatim>\<open>TypeError\<close> when subscripted with a string.\<close>

fun getitem :: "yaml \<Rightarrow> string \<Rightarrow> exn + yaml" where
  "getitem (YMap kvs) k =
     (case map_of kvs k of None \<Rightarrow> Inl (KeyError k) | Some v \<Rightarrow> Inr v)"
| "getitem v k = Inl (TypeError ''subscript'')"

text \<open>\<^verbatim>\<open>d.keys()\<close>: only a mapping has the method.\<close>

fun keys_py :: "yaml \<Rightarrow> exn + string list" where
  "keys_py (YMap kvs) = Inr (map fst kvs)"
| "keys_py v = Inl (AttributeError ''keys'')"

text \<open>\<^verbatim>\<open>k in d\<close>, used on line 213 on a value that has been subscripted with a string
  before, hence on a mapping.\<close>

fun contains :: "yaml \<Rightarrow> string \<Rightarrow> bool" where
  "contains (YMap kvs) k = (k \<in> set (map fst kvs))"
| "contains v k = False"

text \<open>
  \<^verbatim>\<open>dict(v)\<close>. Of a mapping it is the copy. Of any other iterable it is built from its
  elements, each of which must itself be iterable with exactly two items, the key and the
  value: a two-item list, a two-character string (characters are bytes here), or a mapping
  of two keys. The key must be hashable, and a key equal to an earlier one (\<^verbatim>\<open>True\<close>
  equals \<^verbatim>\<open>1\<close>) replaces its value. A string is the iterable of its characters, each a
  string of length one. What is not iterable raises \<^verbatim>\<open>TypeError\<close>, an element of another
  length \<^verbatim>\<open>ValueError\<close>. The keys of the result need not be strings.
\<close>

fun hashable :: "yaml \<Rightarrow> bool" where
  "hashable (YSeq items) = False"
| "hashable (YMap kvs) = False"
| "hashable v = True"

fun as_number :: "yaml \<Rightarrow> int option" where
  "as_number (YBool b) = Some (if b then 1 else 0)"
| "as_number (YInt i) = Some i"
| "as_number v = None"

definition key_eq :: "yaml \<Rightarrow> yaml \<Rightarrow> bool" where
  "key_eq j k =
     (case (as_number j, as_number k) of
        (Some m, Some n) \<Rightarrow> m = n
      | (None, None) \<Rightarrow> j = k
      | _ \<Rightarrow> False)"

fun dict_setitem :: "(yaml \<times> yaml) list \<Rightarrow> yaml \<Rightarrow> yaml \<Rightarrow> (yaml \<times> yaml) list" where
  "dict_setitem [] k v = [(k, v)]"
| "dict_setitem ((j, w) # d) k v =
     (if key_eq j k then (j, v) # d else (j, w) # dict_setitem d k v)"

fun key_value_of :: "yaml \<Rightarrow> exn + yaml \<times> yaml" where
  "key_value_of (YSeq [k, v]) = Inr (k, v)"
| "key_value_of (YSeq items) = Inl (ValueError ''dictionary update sequence element'')"
| "key_value_of (YStr [c, d]) = Inr (YStr [c], YStr [d])"
| "key_value_of (YStr s) = Inl (ValueError ''dictionary update sequence element'')"
| "key_value_of (YMap [(j, v), (k, w)]) = Inr (YStr j, YStr k)"
| "key_value_of (YMap kvs) = Inl (ValueError ''dictionary update sequence element'')"
| "key_value_of v = Inl (TypeError ''cannot convert dictionary update sequence element'')"

fun dict_update_seq :: "(yaml \<times> yaml) list \<Rightarrow> yaml list \<Rightarrow> exn + (yaml \<times> yaml) list" where
  "dict_update_seq d [] = Inr d"
| "dict_update_seq d (item # items) =
     bind_exn (key_value_of item) (\<lambda>kv.
       if hashable (fst kv) then dict_update_seq (dict_setitem d (fst kv) (snd kv)) items
       else Inl (TypeError ''unhashable type''))"

fun dict_py :: "yaml \<Rightarrow> exn + (yaml \<times> yaml) list" where
  "dict_py (YMap kvs) = Inr (map (\<lambda>kv. (YStr (fst kv), snd kv)) kvs)"
| "dict_py (YSeq items) = dict_update_seq [] items"
| "dict_py (YStr s) = dict_update_seq [] (map (\<lambda>c. YStr [c]) s)"
| "dict_py v = Inl (TypeError ''object is not iterable'')"

text \<open>The template of \<^verbatim>\<open>get_sample_model_config_yaml_file\<close> (lines 45-69), the mapping
  that the function hands to \<^verbatim>\<open>yaml.dump\<close>.\<close>

definition model_config :: yaml where
  "model_config = YMap
     [(GRID_SEARCH_KEY, YMap
        [(MODULE_KEY, YStr ''sklearn.model_selection''),
         (CLASS_KEY, YStr ''GridSearchCV''),
         (PARAM_KEY, YMap [(''cv'', YInt 3), (''verbose'', YInt 1)])]),
      (MODEL_SELECTION_KEY, YMap
        [(''module_0'', YMap
           [(MODULE_KEY, YStr ''module_of_model''),
            (CLASS_KEY, YStr ''ModelClassName''),
            (PARAM_KEY, YMap
               [(''param_name1'', YStr ''value1''), (''param_name2'', YStr ''value2'')]),
            (SEARCH_PARAM_GRID_KEY, YMap
               [(''param_name'', YSeq [YStr ''param_value_1'', YStr ''param_value_2''])])])])]"

section \<open>The Python runtime and the toolkit\<close>

text \<open>
  What the code asks of its environment: \<^verbatim>\<open>importlib.import_module\<close> (a module is the
  table of its attributes), the call of a class with no argument, \<^verbatim>\<open>setattr\<close>, the call
  of the search class with \<^verbatim>\<open>estimator=\<close> and \<^verbatim>\<open>param_grid=\<close>, its \<^verbatim>\<open>fit\<close>, and the
  three attributes read after the fit. Each of them may raise. Objects are mutable in
  Python; here each operation returns the object as it is afterwards.
\<close>

record ('cls, 'obj, 'data, 'params) runtime =
  import_module :: "string \<Rightarrow> exn + (string \<Rightarrow> 'cls option)"
  call_class :: "'cls \<Rightarrow> exn + 'obj"
  setattr :: "'obj \<Rightarrow> string \<Rightarrow> yaml \<Rightarrow> exn + 'obj"
  call_search_class :: "'cls \<Rightarrow> 'obj \<Rightarrow> yaml \<Rightarrow> exn + 'obj"
  fit :: "'obj \<Rightarrow> 'data \<Rightarrow> 'data \<Rightarrow> exn + 'obj"
  get_best_estimator :: "'obj \<Rightarrow> exn + 'obj"
  get_best_params :: "'obj \<Rightarrow> exn + 'params"
  get_best_score :: "'obj \<Rightarrow> exn + real"

text \<open>\<^verbatim>\<open>class_for_name\<close> (lines 178-187). \<^verbatim>\<open>import_module\<close> calls \<^verbatim>\<open>startswith\<close> on
  the name, so a name that is no string raises \<^verbatim>\<open>AttributeError\<close>; \<^verbatim>\<open>getattr\<close> wants a
  string as attribute name and raises \<^verbatim>\<open>TypeError\<close> otherwise.\<close>

definition class_for_name ::
  "('cls, 'obj, 'data, 'params) runtime \<Rightarrow> yaml \<Rightarrow> yaml \<Rightarrow> exn + 'cls" where
  "class_for_name rt module_name class_name =
     housing_try
       (case module_name of
          YStr m \<Rightarrow>
            bind_exn (import_module rt m) (\<lambda>module.
              (case class_name of
                 YStr c \<Rightarrow>
                   (case module c of
                      None \<Rightarrow> Inl (AttributeError c)
                    | Some class_ref \<Rightarrow> Inr class_ref)
               | _ \<Rightarrow> Inl (TypeError ''getattr'')))
        | _ \<Rightarrow> Inl (AttributeError ''startswith''))"

text \<open>\<^verbatim>\<open>update_property_of_class\<close> (lines 190-200). Both callers pass the result of
  \<^verbatim>\<open>dict(...)\<close>, so the \<^verbatim>\<open>isinstance\<close> test on line 192 never fails for them: the
  argument is a dictionary by its type here. \<^verbatim>\<open>setattr\<close> wants a string as attribute
  name and raises \<^verbatim>\<open>TypeError\<close> for any other key.\<close>

fun setattr_loop ::
  "('cls, 'obj, 'data, 'params) runtime \<Rightarrow> 'obj \<Rightarrow> (yaml \<times> yaml) list \<Rightarrow> exn + 'obj" where
  "setattr_loop rt instance_ref [] = Inr instance_ref"
| "setattr_loop rt instance_ref ((YStr key, val) # items) =
     bind_exn (setattr rt instance_ref key val) (\<lambda>instance_ref'.
       setattr_loop rt instance_ref' items)"
| "setattr_loop rt instance_ref ((key, val) # items) =
     Inl (TypeError ''attribute name must be string'')"

definition update_property_of_class ::
  "('cls, 'obj, 'data, 'params) runtime \<Rightarrow> 'obj \<Rightarrow> (yaml \<times> yaml) list \<Rightarrow> exn + 'obj" where
  "update_property_of_class rt instance_ref property_data =
     housing_try (setattr_loop rt instance_ref property_data)"

section \<open>The model factory\<close>

text \<open>The named tuple \<^verbatim>\<open>InitialisedModelDetail\<close> (lines 21-22).\<close>

record 'obj InitialisedModelDetail =
  model_serial_number :: string
  model :: 'obj
  param_grid_search :: yaml
  model_name :: string

text \<open>The attributes of a \<^verbatim>\<open>ModelFactory\<close> (lines 159-166). An entry of
  \<^verbatim>\<open>grid_searched_best_model_list\<close> is whatever the per-model search returned, a search
  result or \<^verbatim>\<open>None\<close>.\<close>

record ('obj, 'params) ModelFactory =
  config :: yaml
  models_initialisation_config :: yaml
  initialised_model_list :: "'obj InitialisedModelDetail list option"
  grid_search_cv_module :: yaml
  grid_search_class_name :: yaml
  grid_search_property_data :: "(yaml \<times> yaml) list"
  grid_searched_best_model_list ::
    "('obj, 'params) GridSearchedBestModel option list option"

text \<open>\<^verbatim>\<open>__init__\<close>, from the document that \<^verbatim>\<open>read_params\<close> returned. The constructor has
  no handler of its own, so a lookup failure is not wrapped.\<close>

definition ModelFactory_init :: "yaml \<Rightarrow> exn + ('obj, 'params) ModelFactory" where
  "ModelFactory_init cfg =
     bind_exn (getitem cfg MODEL_SELECTION_KEY) (\<lambda>selection.
     bind_exn (getitem cfg GRID_SEARCH_KEY) (\<lambda>gs1.
     bind_exn (getitem gs1 MODULE_KEY) (\<lambda>gs_module.
     bind_exn (getitem cfg GRID_SEARCH_KEY) (\<lambda>gs2.
     bind_exn (getitem gs2 CLASS_KEY) (\<lambda>gs_class.
     bind_exn (getitem cfg GRID_SEARCH_KEY) (\<lambda>gs3.
     bind_exn (getitem gs3 PARAM_KEY) (\<lambda>gs_params.
     bind_exn (dict_py gs_params) (\<lambda>property_data.
       Inr \<lparr>config = cfg,
            models_initialisation_config = selection,
            initialised_model_list = None,
            grid_search_cv_module = gs_module,
            grid_search_class_name = gs_class,
            grid_search_property_data = property_data,
            grid_searched_best_model_list = None\<rparr>))))))))"

text \<open>
  The body of the loop of \<^verbatim>\<open>get_initialised_model_list\<close> up to the construction of the
  named tuple (lines 208-223). When \<^verbatim>\<open>class_for_name\<close> has returned, both names are
  strings, and the display name is the two joined by a dot; the last case is never reached.
\<close>

definition initialise_model ::
  "('cls, 'obj, 'data, 'params) runtime \<Rightarrow> yaml \<Rightarrow> string
    \<Rightarrow> exn + 'obj InitialisedModelDetail" where
  "initialise_model rt selection serial =
     bind_exn (getitem selection serial) (\<lambda>model_initialisation_config.
     bind_exn (getitem model_initialisation_config MODULE_KEY) (\<lambda>module_name.
     bind_exn (getitem model_initialisation_config CLASS_KEY) (\<lambda>class_name.
     bind_exn (class_for_name rt module_name class_name) (\<lambda>model_obj_ref.
     bind_exn (call_class rt model_obj_ref) (\<lambda>model0.
     bind_exn
       (if contains model_initialisation_config PARAM_KEY
        then bind_exn (getitem model_initialisation_config PARAM_KEY) (\<lambda>params.
             bind_exn (dict_py params) (\<lambda>model_obj_property_data.
               update_property_of_class rt model0 model_obj_property_data))
        else Inr model0) (\<lambda>model1.
     bind_exn (getitem model_initialisation_config SEARCH_PARAM_GRID_KEY) (\<lambda>grid.
       (case (module_name, class_name) of
          (YStr m, YStr c) \<Rightarrow>
            Inr \<lparr>model_serial_number = serial,
                 model = model1,
                 param_grid_search = grid,
                 model_name = m @ ''.'' @ c\<rparr>
        | _ \<Rightarrow> Inl (TypeError ''format'')))))))))"

text \<open>
  The loop of \<^verbatim>\<open>get_initialised_model_list\<close> (lines 206-228). The assignment to
  \<^verbatim>\<open>self.initialised_model_list\<close> and the \<^verbatim>\<open>return\<close> (lines 227-228) are inside the loop
  body: the first iteration returns, and with no key the function falls off its end,
  returns \<^verbatim>\<open>None\<close> and has assigned nothing.
\<close>

fun initialised_model_loop ::
  "('cls, 'obj, 'data, 'params) runtime \<Rightarrow> ('obj, 'params) ModelFactory
    \<Rightarrow> 'obj InitialisedModelDetail list \<Rightarrow> string list
    \<Rightarrow> (exn + 'obj InitialisedModelDetail list option) \<times> ('obj, 'params) ModelFactory" where
  "initialised_model_loop rt self acc [] = (Inr None, self)"
| "initialised_model_loop rt self acc (serial # rest) =
     (case initialise_model rt (models_initialisation_config self) serial of
        Inl e \<Rightarrow> (Inl e, self)
      | Inr detail \<Rightarrow>
          (let self' = self\<lparr>initialised_model_list := Some (acc @ [detail])\<rparr>
           in (Inr (initialised_model_list self'), self')))"

definition get_initialised_model_list ::
  "('cls, 'obj, 'data, 'params) runtime \<Rightarrow> ('obj, 'params) ModelFactory
    \<Rightarrow> (exn + 'obj InitialisedModelDetail list option) \<times> ('obj, 'params) ModelFactory" where
  "get_initialised_model_list rt self =
     (case keys_py (models_initialisation_config self) of
        Inl e \<Rightarrow> (Inl (HousingException e), self)
      | Inr serials \<Rightarrow>
          (case initialised_model_loop rt self [] serials of
             (r, self') \<Rightarrow> (housing_try r, self')))"

text \<open>\<^verbatim>\<open>execute_grid_search_operation\<close> (lines 246-272).\<close>

definition execute_grid_search_operation ::
  "('cls, 'obj, 'data, 'params) runtime \<Rightarrow> ('obj, 'params) ModelFactory
    \<Rightarrow> 'obj InitialisedModelDetail \<Rightarrow> 'data \<Rightarrow> 'data
    \<Rightarrow> exn + ('obj, 'params) GridSearchedBestModel" where
  "execute_grid_search_operation rt self initialized_model input_feature output_feature =
     housing_try
       (bind_exn (class_for_name rt (grid_search_cv_module self) (grid_search_class_name self))
          (\<lambda>grid_search_cv_ref.
        bind_exn (call_search_class rt grid_search_cv_ref (model initialized_model)
                    (param_grid_search initialized_model)) (\<lambda>grid_search_cv0.
        bind_exn (update_property_of_class rt grid_search_cv0 (grid_search_property_data self))
          (\<lambda>grid_search_cv1.
        bind_exn (fit rt grid_search_cv1 input_feature output_feature) (\<lambda>grid_search_cv.
        bind_exn (get_best_estimator rt grid_search_cv) (\<lambda>estimator.
        bind_exn (get_best_params rt grid_search_cv) (\<lambda>params.
        bind_exn (get_best_score rt grid_search_cv) (\<lambda>score.
          Inr \<lparr>searched_model_serial_number = model_serial_number initialized_model,
               searched_model = model initialized_model,
               best_model = estimator,
               best_parameters = params,
               best_score = score\<rparr>))))))))"

text \<open>\<^verbatim>\<open>initiate_best_parameter_search_for_initialised_model\<close> (lines 284-289): the call
  of \<^verbatim>\<open>execute_grid_search_operation\<close> is a statement, its value is dropped, and the
  function ends without a \<^verbatim>\<open>return\<close>.\<close>

definition initiate_best_parameter_search_for_initialised_model ::
  "('cls, 'obj, 'data, 'params) runtime \<Rightarrow> ('obj, 'params) ModelFactory
    \<Rightarrow> 'obj InitialisedModelDetail \<Rightarrow> 'data \<Rightarrow> 'data
    \<Rightarrow> exn + ('obj, 'params) GridSearchedBestModel option" where
  "initiate_best_parameter_search_for_initialised_model rt self initialised_model
       input_feature output_feature =
     housing_try
       (bind_exn (execute_grid_search_operation rt self initialised_model
                    input_feature output_feature) (\<lambda>dropped. Inr None))"

text \<open>\<^verbatim>\<open>initiate_best_parameter_search_for_initialised_models\<close> (lines 294-305). The list
  is an attribute of the factory and grows in place, so after a failure the factory holds
  the results of the candidates before the failing one.\<close>

fun search_loop ::
  "('cls, 'obj, 'data, 'params) runtime \<Rightarrow> ('obj, 'params) ModelFactory
    \<Rightarrow> ('obj, 'params) GridSearchedBestModel option list
    \<Rightarrow> 'obj InitialisedModelDetail list \<Rightarrow> 'data \<Rightarrow> 'data
    \<Rightarrow> (exn + ('obj, 'params) GridSearchedBestModel option list)
        \<times> ('obj, 'params) ModelFactory" where
  "search_loop rt self acc [] input_feature output_feature = (Inr acc, self)"
| "search_loop rt self acc (initialised_model # rest) input_feature output_feature =
     (case initiate_best_parameter_search_for_initialised_model rt self initialised_model
             input_feature output_feature of
        Inl e \<Rightarrow> (Inl e, self)
      | Inr grid_searched_best_model \<Rightarrow>
          search_loop rt
            (self\<lparr>grid_searched_best_model_list := Some (acc @ [grid_searched_best_model])\<rparr>)
            (acc @ [grid_searched_best_model]) rest input_feature output_feature)"

definition initiate_best_parameter_search_for_initialised_models ::
  "('cls, 'obj, 'data, 'params) runtime \<Rightarrow> ('obj, 'params) ModelFactory
    \<Rightarrow> 'obj InitialisedModelDetail list \<Rightarrow> 'data \<Rightarrow> 'data
    \<Rightarrow> (exn + ('obj, 'params) GridSearchedBestModel option list)
        \<times> ('obj, 'params) ModelFactory" where
  "initiate_best_parameter_search_for_initialised_models rt self initialised_models
       input_feature output_feature =
     (case search_loop rt (self\<lparr>grid_searched_best_model_list := Some []\<rparr>) []
             initialised_models input_feature output_feature of
        (r, self') \<Rightarrow> (housing_try r, self'))"

section \<open>The comparison of fitted regression models\<close>

text \<open>
  What \<^verbatim>\<open>evaluate_regression_model\<close> asks of the toolkit: \<^verbatim>\<open>str(model)\<close>,
  \<^verbatim>\<open>model.predict\<close>, \<^verbatim>\<open>r2_score\<close>, \<^verbatim>\<open>mean_squared_error\<close> and \<^verbatim>\<open>np.sqrt\<close>, and
  which kind of float the scores are.
\<close>

record ('m, 'x, 'y, 'p) scoring =
  model_str :: "'m \<Rightarrow> string"
  predict :: "'m \<Rightarrow> 'x \<Rightarrow> exn + 'p"
  r2_score :: "'y \<Rightarrow> 'p \<Rightarrow> exn + float64"
  mean_squared_error :: "'y \<Rightarrow> 'p \<Rightarrow> exn + float64"
  np_sqrt :: "float64 \<Rightarrow> float64"
  score_kind :: float_kind

text \<open>
  The call on lines 138-145 as it is written: the keywords in their order. It is written
  with \<^verbatim>\<open>model_accuracy=model\<close> where the field \<^verbatim>\<open>model_object\<close> is meant, then
  \<^verbatim>\<open>model_accuracy=model_accuracy\<close>.
\<close>

definition MetricInfoArtifact_call_keywords :: "string list" where
  "MetricInfoArtifact_call_keywords =
     [''model_name'', ''model_accuracy'', ''train_rmse'', ''test_rmse'',
      ''train_accuracy'', ''test_accuracy'', ''model_accuracy'', ''index_number'']"

text \<open>
  When Python compiles a call, it goes through the keywords from left to right and rejects
  the call at the first keyword that it has seen before, with
  \<^verbatim>\<open>SyntaxError: keyword argument repeated\<close>. A file that holds such a call is not
  compiled, so that none of its functions is ever defined.
\<close>

fun keyword_argument_repeated :: "string list \<Rightarrow> string list \<Rightarrow> string option" where
  "keyword_argument_repeated seen [] = None"
| "keyword_argument_repeated seen (k # keywords) =
     (if k \<in> set seen then Some k else keyword_argument_repeated (k # seen) keywords)"

definition compile_evaluate_regression_model :: "exn + unit" where
  "compile_evaluate_regression_model =
     (case keyword_argument_repeated [] MetricInfoArtifact_call_keywords of
        Some k \<Rightarrow> Inl (SyntaxError (''keyword argument repeated: '' @ k))
      | None \<Rightarrow> Inr ())"

text \<open>
  The call of a named tuple's class with keyword arguments, when it runs: a keyword that
  is no field and a field left without a value raise \<^verbatim>\<open>TypeError\<close>. The keywords of a
  compiled call are distinct. A named tuple is the list of its fields with their values.
\<close>

datatype 'm field_value =
    Text string
  | Object 'm
  | Float float64
  | Index nat

definition namedtuple_new ::
  "string list \<Rightarrow> (string \<times> 'v) list \<Rightarrow> exn + (string \<times> 'v) list" where
  "namedtuple_new field_names kwargs =
     (case filter (\<lambda>k. k \<notin> set field_names) (map fst kwargs) of
        k # ks \<Rightarrow> Inl (TypeError ''unexpected keyword argument'')
      | [] \<Rightarrow>
          (case filter (\<lambda>f. f \<notin> set (map fst kwargs)) field_names of
             f # fs \<Rightarrow> Inl (TypeError ''missing required argument'')
           | [] \<Rightarrow>
               Inr (concat (map (\<lambda>f. case map_of kwargs f of
                                        None \<Rightarrow> []
                                      | Some v \<Rightarrow> [(f, v)]) field_names))))"

text \<open>The fields of \<^verbatim>\<open>MetricInfoArtifact\<close> (lines 36-39).\<close>

definition MetricInfoArtifact_fields :: "string list" where
  "MetricInfoArtifact_fields =
     [''model_name'', ''model_object'', ''train_rmse'', ''test_rmse'',
      ''train_accuracy'', ''test_accuracy'', ''model_accuracy'', ''index_number'']"

text \<open>
  The body of the loop of \<^verbatim>\<open>evaluate_regression_model\<close> (lines 103-145) for one model,
  from the floor \<^verbatim>\<open>base_accuracy\<close> and the report retained so far to the two afterwards.
  The literal \<^verbatim>\<open>0.05\<close> is the float nearest to it. \<^verbatim>\<open>index_number\<close> is still the \<open>0\<close>
  of line 99 in every iteration, since line 148 is outside the loop.
\<close>

definition evaluate_model ::
  "('m, 'x, 'y, 'p) scoring \<Rightarrow> 'x \<Rightarrow> 'y \<Rightarrow> 'x \<Rightarrow> 'y \<Rightarrow> nat
    \<Rightarrow> float64 \<times> (string \<times> 'm field_value) list option \<Rightarrow> 'm
    \<Rightarrow> exn + float64 \<times> (string \<times> 'm field_value) list option" where
  "evaluate_model sc X_train y_train X_test y_test index_number state mdl =
     bind_exn (predict sc mdl X_train) (\<lambda>y_train_pred.
     bind_exn (predict sc mdl X_test) (\<lambda>y_test_pred.
     bind_exn (r2_score sc y_train y_train_pred) (\<lambda>train_acc.
     bind_exn (r2_score sc y_test y_test_pred) (\<lambda>test_acc.
     bind_exn (mean_squared_error sc y_train y_train_pred) (\<lambda>train_mse.
     bind_exn (mean_squared_error sc y_test y_test_pred) (\<lambda>test_mse.
     bind_exn (model_accuracy_of (score_kind sc) train_acc test_acc) (\<lambda>model_accuracy.
       (let model_name = model_str sc mdl;
            train_rmse = np_sqrt sc train_mse;
            test_rmse = np_sqrt sc test_mse;
            diff_test_train_acc = fabs (fsub test_acc train_acc)
        in if fle (fst state) model_accuracy \<and> flt diff_test_train_acc (round64 0.05)
           then bind_exn
                  (namedtuple_new MetricInfoArtifact_fields
                     (zip MetricInfoArtifact_call_keywords
                        [Text model_name, Object mdl, Float train_rmse, Float test_rmse,
                         Float train_acc, Float test_acc, Float model_accuracy,
                         Index index_number]))
                  (\<lambda>metric_info_artifact. Inr (model_accuracy, Some metric_info_artifact))
           else Inr state))))))))"

fun evaluate_loop ::
  "('m, 'x, 'y, 'p) scoring \<Rightarrow> 'x \<Rightarrow> 'y \<Rightarrow> 'x \<Rightarrow> 'y \<Rightarrow> nat
    \<Rightarrow> float64 \<times> (string \<times> 'm field_value) list option \<Rightarrow> 'm list
    \<Rightarrow> exn + float64 \<times> (string \<times> 'm field_value) list option" where
  "evaluate_loop sc X_train y_train X_test y_test index_number state [] = Inr state"
| "evaluate_loop sc X_train y_train X_test y_test index_number state (mdl # model_list) =
     bind_exn (evaluate_model sc X_train y_train X_test y_test index_number state mdl)
       (\<lambda>state'. evaluate_loop sc X_train y_train X_test y_test index_number state' model_list)"

text \<open>
  \<^verbatim>\<open>evaluate_regression_model\<close> (lines 81-154). The function exists only if its
  definition compiles, and the error of the compiler is raised outside the \<^verbatim>\<open>try\<close>, so
  it is not wrapped. The body is the loop from the given floor and no report, then the
  report retained at the end, or \<^verbatim>\<open>None\<close>.
\<close>

definition evaluate_regression_model ::
  "('m, 'x, 'y, 'p) scoring \<Rightarrow> 'm list \<Rightarrow> 'x \<Rightarrow> 'y \<Rightarrow> 'x \<Rightarrow> 'y \<Rightarrow> float64
    \<Rightarrow> exn + (string \<times> 'm field_value) list option" where
  "evaluate_regression_model sc model_list X_train y_train X_test y_test base_accuracy =
     bind_exn compile_evaluate_regression_model (\<lambda>compiled.
       housing_try
         (bind_exn (evaluate_loop sc X_train y_train X_test y_test 0 (base_accuracy, None)
                      model_list)
            (\<lambda>state. Inr (snd state))))"

section \<open>A small environment for running the functions\<close>

text \<open>
  A runtime with three classes: an object is an estimator with the attributes set on it,
  or a search object around an estimator and a grid. A fitted search object hands back the
  estimator it was built around, no parameters and the score \<open>0.9\<close>.
\<close>

datatype toy_obj =
    Estimator string string "(string \<times> yaml) list"
  | Search toy_obj yaml "(string \<times> yaml) list" bool

fun toy_setattr :: "toy_obj \<Rightarrow> string \<Rightarrow> yaml \<Rightarrow> exn + toy_obj" where
  "toy_setattr (Estimator m c attrs) k v = Inr (Estimator m c (attrs @ [(k, v)]))"
| "toy_setattr (Search est grid attrs fitted) k v = Inr (Search est grid (attrs @ [(k, v)]) fitted)"

fun toy_fit :: "toy_obj \<Rightarrow> unit \<Rightarrow> unit \<Rightarrow> exn + toy_obj" where
  "toy_fit (Search est grid attrs fitted) X y = Inr (Search est grid attrs True)"
| "toy_fit (Estimator m c attrs) X y = Inr (Estimator m c attrs)"

fun toy_best_estimator :: "toy_obj \<Rightarrow> exn + toy_obj" where
  "toy_best_estimator (Search est grid attrs True) = Inr est"
| "toy_best_estimator obj = Inl (AttributeError ''best_estimator_'')"

fun toy_best_params :: "toy_obj \<Rightarrow> exn + yaml" where
  "toy_best_params (Search est grid attrs True) = Inr (YMap [])"
| "toy_best_params obj = Inl (AttributeError ''best_params_'')"

fun toy_best_score :: "toy_obj \<Rightarrow> exn + real" where
  "toy_best_score (Search est grid attrs True) = Inr 0.9"
| "toy_best_score obj = Inl (AttributeError ''best_score_'')"

definition toy_modules :: "string \<Rightarrow> exn + (string \<Rightarrow> (string \<times> string) option)" where
  "toy_modules m =
     (if m = ''sklearn.linear_model''
      then Inr (\<lambda>c. if c = ''LinearRegression'' then Some (m, c) else None)
      else if m = ''sklearn.ensemble''
      then Inr (\<lambda>c. if c = ''RandomForestRegressor'' then Some (m, c) else None)
      else if m = ''sklearn.model_selection''
      then Inr (\<lambda>c. if c = ''GridSearchCV'' then Some (m, c) else None)
      else Inl (ModuleNotFoundError m))"

definition toy_runtime :: "(string \<times> string, toy_obj, unit, yaml) runtime" where
  "toy_runtime =
     \<lparr>import_module = toy_modules,
      call_class = (\<lambda>cls. Inr (Estimator (fst cls) (snd cls) [])),
      setattr = toy_setattr,
      call_search_class = (\<lambda>cls est grid. Inr (Search est grid [] False)),
      fit = toy_fit,
      get_best_estimator = toy_best_estimator,
      get_best_params = toy_best_params,
      get_best_score = toy_best_score\<rparr>"

text \<open>A configuration with two candidate models, and one with none.\<close>

definition toy_grid_search :: yaml where
  "toy_grid_search = YMap
     [(MODULE_KEY, YStr ''sklearn.model_selection''),
      (CLASS_KEY, YStr ''GridSearchCV''),
      (PARAM_KEY, YMap [(''cv'', YInt 3), (''verbose'', YInt 1)])]"

definition two_model_config :: yaml where
  "two_model_config = YMap
     [(GRID_SEARCH_KEY, toy_grid_search),
      (MODEL_SELECTION_KEY, YMap
        [(''module_0'', YMap
           [(MODULE_KEY, YStr ''sklearn.linear_model''),
            (CLASS_KEY, YStr ''LinearRegression''),
            (PARAM_KEY, YMap [(''fit_intercept'', YBool True)]),
            (SEARCH_PARAM_GRID_KEY, YMap
               [(''fit_intercept'', YSeq [YBool True, YBool False])])]),
         (''module_1'', YMap
           [(MODULE_KEY, YStr ''sklearn.ensemble''),
            (CLASS_KEY, YStr ''RandomForestRegressor''),
            (PARAM_KEY, YMap [(''min_samples_leaf'', YInt 3)]),
            (SEARCH_PARAM_GRID_KEY, YMap
               [(''min_samples_leaf'', YSeq [YInt 6])])])])]"

definition no_model_config :: yaml where
  "no_model_config = YMap
     [(GRID_SEARCH_KEY, toy_grid_search),
      (MODEL_SELECTION_KEY, YMap [])]"

text \<open>The first initialised model of \<open>two_model_config\<close>.\<close>

definition linear_regression_detail :: "toy_obj InitialisedModelDetail" where
  "linear_regression_detail =
     \<lparr>model_serial_number = ''module_0'',
      model = Estimator ''sklearn.linear_model'' ''LinearRegression''
                [(''fit_intercept'', YBool True)],
      param_grid_search = YMap [(''fit_intercept'', YSeq [YBool True, YBool False])],
      model_name = ''sklearn.linear_model.LinearRegression''\<rparr>"

text \<open>The second candidate of \<open>two_model_config\<close>, as it would be initialised.\<close>

definition random_forest_detail :: "toy_obj InitialisedModelDetail" where
  "random_forest_detail =
     \<lparr>model_serial_number = ''module_1'',
      model = Estimator ''sklearn.ensemble'' ''RandomForestRegressor''
                [(''min_samples_leaf'', YInt 3)],
      param_grid_search = YMap [(''min_samples_leaf'', YSeq [YInt 6])],
      model_name = ''sklearn.ensemble.RandomForestRegressor''\<rparr>"

text \<open>
  A scoring capability under which a candidate \<open>(name, a, b)\<close> has train accuracy \<open>a\<close> and
  test accuracy \<open>b\<close>, both built-in floats: the prediction on a data set is the score it
  will get.
\<close>

datatype split = Train | Test

definition toy_scoring :: "(string \<times> float64 \<times> float64, split, unit, float64) scoring" where
  "toy_scoring =
     \<lparr>model_str = fst,
      predict = (\<lambda>m X. Inr (case X of Train \<Rightarrow> fst (snd m) | Test \<Rightarrow> snd (snd m))),
      r2_score = (\<lambda>y p. Inr p),
      mean_squared_error = (\<lambda>y p. Inr (Finite 0)),
      np_sqrt = (\<lambda>x. x),
      score_kind = PyFloat\<rparr>"

section \<open>Basic facts\<close>

lemma bind_exn_simps [simp]:
  "bind_exn (Inl e) f = Inl e"
  "bind_exn (Inr v) f = f v"
  by (simp_all add: bind_exn_def)

lemma housing_try_simps [simp]:
  "housing_try (Inl e) = Inl (HousingException e)"
  "housing_try (Inr v) = Inr v"
  by (simp_all add: housing_try_def)

lemma bind_exn_eq_Inr:
  "bind_exn r f = Inr v \<longleftrightarrow> (\<exists>u. r = Inr u \<and> f u = Inr v)"
  by (cases r) simp_all

lemma housing_try_eq_Inr:
  "housing_try r = Inr v \<longleftrightarrow> r = Inr v"
  by (cases r) simp_all

lemmas key_defs =
  MODEL_SELECTION_KEY_def GRID_SEARCH_KEY_def MODULE_KEY_def CLASS_KEY_def
  PARAM_KEY_def SEARCH_PARAM_GRID_KEY_def

section \<open>The list of initialised models\<close>

lemma ModelFactory_init_fields:
  assumes "ModelFactory_init cfg = Inr self"
  shows "getitem cfg MODEL_SELECTION_KEY = Inr (models_initialisation_config self)"
    and "initialised_model_list self = None"
    and "grid_searched_best_model_list self = None"
  using assms by (auto simp: ModelFactory_init_def bind_exn_eq_Inr)

lemma get_initialised_model_list_empty:
  "models_initialisation_config self = YMap [] \<Longrightarrow>
     get_initialised_model_list rt self = (Inr None, self)"
  by (simp add: get_initialised_model_list_def)

text \<open>Whatever the configuration, a returned list has one entry.\<close>

lemma get_initialised_model_list_one_entry:
  assumes "fst (get_initialised_model_list rt self) = Inr (Some details)"
  shows "length details = 1"
proof (cases "models_initialisation_config self")
  case (YMap kvs)
  show ?thesis
  proof (cases kvs)
    case Nil
    with YMap assms show ?thesis
      by (simp add: get_initialised_model_list_def)
  next
    case (Cons kv rest)
    with YMap assms show ?thesis
      by (auto simp: get_initialised_model_list_def housing_try_eq_Inr Let_def
          split: sum.splits)
  qed
qed (use assms in \<open>simp_all add: get_initialised_model_list_def\<close>)

lemma two_model_factory:
  "ModelFactory_init two_model_config =
     Inr \<lparr>config = two_model_config,
          models_initialisation_config = YMap
            [(''module_0'', YMap
               [(''module'', YStr ''sklearn.linear_model''),
                (''class'', YStr ''LinearRegression''),
                (''params'', YMap [(''fit_intercept'', YBool True)]),
                (''search_param_grid'', YMap
                   [(''fit_intercept'', YSeq [YBool True, YBool False])])]),
             (''module_1'', YMap
               [(''module'', YStr ''sklearn.ensemble''),
                (''class'', YStr ''RandomForestRegressor''),
                (''params'', YMap [(''min_samples_leaf'', YInt 3)]),
                (''search_param_grid'', YMap
                   [(''min_samples_leaf'', YSeq [YInt 6])])])],
          initialised_model_list = None,
          grid_search_cv_module = YStr ''sklearn.model_selection'',
          grid_search_class_name = YStr ''GridSearchCV'',
          grid_search_property_data = [(YStr ''cv'', YInt 3), (YStr ''verbose'', YInt 1)],
          grid_searched_best_model_list = None\<rparr>"
  by (simp add: ModelFactory_init_def two_model_config_def toy_grid_search_def key_defs)

lemma no_model_factory:
  "ModelFactory_init no_model_config =
     Inr \<lparr>config = no_model_config,
          models_initialisation_config = YMap [],
          initialised_model_list = None,
          grid_search_cv_module = YStr ''sklearn.model_selection'',
          grid_search_class_name = YStr ''GridSearchCV'',
          grid_search_property_data = [(YStr ''cv'', YInt 3), (YStr ''verbose'', YInt 1)],
          grid_searched_best_model_list = None\<rparr>"
  by (simp add: ModelFactory_init_def no_model_config_def toy_grid_search_def key_defs)

text \<open>
  C1 (the code departs from the claim). The configuration \<open>two_model_config\<close> lists the
  two descriptors \<open>module_0\<close> and \<open>module_1\<close>, both of which the runtime can resolve. The
  claim asks for two initialised models in configuration order;
  \<^verbatim>\<open>get_initialised_model_list\<close> returns the list of the first one alone.
\<close>

theorem initialised_model_list_stops_after_first:
  "bind_exn (getitem two_model_config MODEL_SELECTION_KEY) keys_py
     = Inr [''module_0'', ''module_1'']
   \<and> bind_exn (ModelFactory_init two_model_config)
       (\<lambda>self :: (toy_obj, yaml) ModelFactory.
          fst (get_initialised_model_list toy_runtime self))
     = Inr (Some [linear_regression_detail])"
proof -
  have "bind_exn (getitem two_model_config MODEL_SELECTION_KEY) keys_py
          = Inr [''module_0'', ''module_1'']"
    by (simp add: two_model_config_def key_defs)
  moreover
  have "bind_exn (ModelFactory_init two_model_config)
          (\<lambda>self :: (toy_obj, yaml) ModelFactory.
             fst (get_initialised_model_list toy_runtime self))
          = Inr (Some [linear_regression_detail])"
    by (simp add: two_model_factory key_defs
        get_initialised_model_list_def initialise_model_def class_for_name_def
        update_property_of_class_def toy_runtime_def toy_modules_def
        linear_regression_detail_def)
  ultimately show ?thesis by simp
qed

text \<open>
  C10. For a factory built from a configuration whose model-selection mapping is empty,
  \<^verbatim>\<open>get_initialised_model_list\<close> returns \<^verbatim>\<open>None\<close>, not an empty list, and the
  attribute \<^verbatim>\<open>initialised_model_list\<close> of the factory is \<^verbatim>\<open>None\<close> afterwards, as the
  constructor left it.
\<close>

theorem empty_selection_returns_None:
  assumes "ModelFactory_init cfg = Inr self"
    and "getitem cfg MODEL_SELECTION_KEY = Inr (YMap [])"
  shows "fst (get_initialised_model_list rt self) = Inr None
         \<and> initialised_model_list (snd (get_initialised_model_list rt self)) = None"
proof -
  from ModelFactory_init_fields(1) [OF assms(1)] assms(2)
  have "models_initialisation_config self = YMap []" by simp
  then have "get_initialised_model_list rt self = (Inr None, self)"
    by (rule get_initialised_model_list_empty)
  with ModelFactory_init_fields(2) [OF assms(1)] show ?thesis by simp
qed

theorem empty_selection_returns_None_witness:
  "\<exists>self :: (toy_obj, yaml) ModelFactory.
      ModelFactory_init no_model_config = Inr self
      \<and> getitem no_model_config MODEL_SELECTION_KEY = Inr (YMap [])
      \<and> fst (get_initialised_model_list toy_runtime self) = Inr None
      \<and> initialised_model_list (snd (get_initialised_model_list toy_runtime self)) = None"
proof -
  have sel: "getitem no_model_config MODEL_SELECTION_KEY = Inr (YMap [])"
    by (simp add: no_model_config_def key_defs)
  from empty_selection_returns_None [OF no_model_factory sel, of toy_runtime]
    no_model_factory sel
  show ?thesis by blast
qed

section \<open>The hyperparameter search\<close>

text \<open>The per-model search never returns a search result: it returns \<^verbatim>\<open>None\<close> or
  raises.\<close>

lemma initiate_search_never_returns_result:
  "initiate_best_parameter_search_for_initialised_model rt self m X y \<noteq> Inr (Some r)"
  by (simp add: initiate_best_parameter_search_for_initialised_model_def
      housing_try_eq_Inr bind_exn_eq_Inr)

lemma search_loop_all_None:
  "search_loop rt self acc ms X y = (Inr rs, self') \<Longrightarrow>
     rs = acc @ replicate (length ms) None"
proof (induction ms arbitrary: self acc)
  case Nil
  then show ?case by simp
next
  case (Cons m ms)
  show ?case
  proof (cases "initiate_best_parameter_search_for_initialised_model rt self m X y")
    case (Inl e)
    with Cons.prems show ?thesis by simp
  next
    case (Inr v)
    with initiate_search_never_returns_result [of rt self m X y] have v: "v = None"
      by (cases v) auto
    from Cons.prems Inr v
    have "search_loop rt (self\<lparr>grid_searched_best_model_list := Some (acc @ [None])\<rparr>)
            (acc @ [None]) ms X y = (Inr rs, self')"
      by simp
    from Cons.IH [OF this] show ?thesis
      by (simp add: replicate_append_same)
  qed
qed

text \<open>When the search over all models returns, it returns one \<^verbatim>\<open>None\<close> per model.\<close>

lemma search_for_models_all_None:
  assumes "fst (initiate_best_parameter_search_for_initialised_models rt self ms X y) = Inr rs"
  shows "rs = replicate (length ms) None"
proof -
  obtain r self' where
    sl: "search_loop rt (self\<lparr>grid_searched_best_model_list := Some []\<rparr>) [] ms X y = (r, self')"
    by (cases "search_loop rt (self\<lparr>grid_searched_best_model_list := Some []\<rparr>) [] ms X y")
  with assms have "r = Inr rs"
    by (simp add: initiate_best_parameter_search_for_initialised_models_def housing_try_eq_Inr)
  with sl search_loop_all_None show ?thesis by fastforce
qed

text \<open>
  C3 (the code departs from the claim). For the first candidate of \<open>two_model_config\<close>,
  \<^verbatim>\<open>execute_grid_search_operation\<close> produces the search result with the best estimator,
  its parameters and its score, but
  \<^verbatim>\<open>initiate_best_parameter_search_for_initialised_model\<close> drops it and returns \<^verbatim>\<open>None\<close>,
  and the search over the two candidates returns \<^verbatim>\<open>[None, None]\<close>: one entry per
  model, none of them a search result.
\<close>

theorem search_for_model_returns_None:
  "bind_exn (ModelFactory_init two_model_config)
     (\<lambda>self :: (toy_obj, yaml) ModelFactory.
        execute_grid_search_operation toy_runtime self linear_regression_detail () ())
     = Inr \<lparr>searched_model_serial_number = ''module_0'',
            searched_model = model linear_regression_detail,
            best_model = model linear_regression_detail,
            best_parameters = YMap [],
            best_score = 0.9\<rparr>
   \<and> bind_exn (ModelFactory_init two_model_config)
       (\<lambda>self :: (toy_obj, yaml) ModelFactory.
          initiate_best_parameter_search_for_initialised_model toy_runtime self
            linear_regression_detail () ())
     = Inr None
   \<and> bind_exn (ModelFactory_init two_model_config)
       (\<lambda>self :: (toy_obj, yaml) ModelFactory.
          fst (initiate_best_parameter_search_for_initialised_models toy_runtime self
                 [linear_regression_detail, random_forest_detail] () ()))
     = Inr [None, None]"
  by (simp add: two_model_factory
      initiate_best_parameter_search_for_initialised_models_def
      initiate_best_parameter_search_for_initialised_model_def
      execute_grid_search_operation_def class_for_name_def update_property_of_class_def
      toy_runtime_def toy_modules_def linear_regression_detail_def random_forest_detail_def)

section \<open>Properties of the selection policy\<close>

lemma best_model_loop_Cons:
  "best_model_loop base_accuracy None (r # rs) =
     (if base_accuracy < best_score r then Inr (Some r)
      else Inl (NoneOfTheModelHasBaseAccuracy base_accuracy))"
  by simp

text \<open>
  C2 (the code departs from the claim). On the scores \<open>[0.5, 0.7, 0.65, 0.9]\<close> with base
  accuracy \<open>0.6\<close> the code raises in the first iteration, because the first score does not
  exceed the floor, while the scan the claim describes returns the result with score
  \<open>0.9\<close>. On the scores \<open>[0.9, 0.5]\<close> both return the first result.
\<close>

theorem select_best_returns_in_first_iteration:
  "get_best_model_from_grid_searched_best_model_list
     [result_with_score ''m0'' 0.5, result_with_score ''m1'' 0.7,
      result_with_score ''m2'' 0.65, result_with_score ''m3'' 0.9] 0.6
   = Inl (HousingException (NoneOfTheModelHasBaseAccuracy 0.6))
   \<and> select_best_spec
     [result_with_score ''m0'' 0.5, result_with_score ''m1'' 0.7,
      result_with_score ''m2'' 0.65, result_with_score ''m3'' 0.9] 0.6
   = Inr (Some (result_with_score ''m3'' 0.9))
   \<and> get_best_model_from_grid_searched_best_model_list
     [result_with_score ''m0'' 0.9, result_with_score ''m1'' 0.5] 0.6
   = Inr (Some (result_with_score ''m0'' 0.9))"
  by (simp add: get_best_model_from_grid_searched_best_model_list_def select_best_spec_def
      result_with_score_def)

text \<open>
  C4. For every non-empty sequence of search results whose scores are all at or below the
  base accuracy, the selection fails: the exception "None of the model has base accuracy"
  is raised and reaches the caller wrapped in \<open>HousingException\<close>; no result is returned.
\<close>

theorem select_best_all_below_fails:
  assumes "results \<noteq> []"
    and "\<forall>r \<in> set results. best_score r \<le> base_accuracy"
  shows "get_best_model_from_grid_searched_best_model_list results base_accuracy
         = Inl (HousingException (NoneOfTheModelHasBaseAccuracy base_accuracy))"
proof (cases results)
  case Nil
  with assms(1) show ?thesis by simp
next
  case (Cons r rs)
  with assms(2) have "\<not> base_accuracy < best_score r" by auto
  with Cons show ?thesis
    by (simp add: get_best_model_from_grid_searched_best_model_list_def)
qed

theorem select_best_all_below_fails_witness:
  "[result_with_score ''m0'' 0.5, result_with_score ''m1'' 0.6] \<noteq> []
   \<and> list_all (\<lambda>r. best_score r \<le> 0.6)
         [result_with_score ''m0'' 0.5, result_with_score ''m1'' 0.6]
   \<and> get_best_model_from_grid_searched_best_model_list
       [result_with_score ''m0'' 0.5, result_with_score ''m1'' 0.6] 0.6
     = Inl (HousingException (NoneOfTheModelHasBaseAccuracy 0.6))"
proof -
  have ne: "[result_with_score ''m0'' 0.5, result_with_score ''m1'' 0.6] \<noteq> []"
    by simp
  have below: "\<forall>r \<in> set [result_with_score ''m0'' 0.5, result_with_score ''m1'' 0.6].
      best_score r \<le> 0.6"
    by (simp add: result_with_score_def)
  from select_best_all_below_fails [OF ne below] ne below show ?thesis
    by (simp add: list_all_iff)
qed

text \<open>
  C9. On the empty sequence of search results the loop body never runs: the function
  returns \<^verbatim>\<open>None\<close> and raises nothing, whatever the base accuracy.
\<close>

theorem select_best_empty_returns_None:
  "get_best_model_from_grid_searched_best_model_list [] base_accuracy = Inr None"
  by (simp add: get_best_model_from_grid_searched_best_model_list_def)

section \<open>Facts about binary64 rounding\<close>

lemma round_half_even_error: "\<bar>of_int (round_half_even y) - y\<bar> \<le> 1/2"
  unfolding round_half_even_def Let_def by (auto simp: abs_if) linarith+

lemma powi_le: "m \<le> n \<Longrightarrow> (2::real) powi m \<le> 2 powi n"
  by (rule power_int_increasing) simp_all

lemma exponent_search_bounds:
  "1 \<le> x * 2 ^ n \<Longrightarrow> x < 2 ^ Suc n \<Longrightarrow>
     2 powi (exponent_search n x) \<le> x \<and> x < 2 powi (exponent_search n x + 1)"
proof (induction n arbitrary: x)
  case 0
  then show ?case by simp
next
  case (Suc n)
  show ?case
  proof (cases "2 \<le> x")
    case True
    then have "1 \<le> x / 2" and "(1::real) \<le> 2 ^ n" and "0 \<le> x / 2" by simp_all
    then have "1 * 1 \<le> x / 2 * 2 ^ n" by (intro mult_mono) simp_all
    then have a: "1 \<le> x / 2 * 2 ^ n" by simp
    have b: "x / 2 < 2 ^ Suc n"
      using Suc.prems(2) by simp
    from Suc.IH [OF a b] True show ?thesis
      by (simp add: power_int_add)
  next
    case False
    show ?thesis
    proof (cases "x < 1")
      case True
      have a: "1 \<le> 2 * x * 2 ^ n"
        using Suc.prems(1) by (simp add: ac_simps)
      have "(1::real) \<le> 2 ^ n"
        by simp
      with True have "x < 2 ^ n" by linarith
      then have b: "2 * x < 2 ^ Suc n" by simp
      from Suc.IH [OF a b] True \<open>\<not> 2 \<le> x\<close> show ?thesis
        by (simp add: power_int_add power_int_diff)
    next
      case False
      with \<open>\<not> 2 \<le> x\<close> show ?thesis by simp
    qed
  qed
qed

lemma float_exponent_bounds:
  assumes "2 powi (- 1022) \<le> \<bar>x\<bar>" and "\<bar>x\<bar> < 2 powi 1024"
  shows "2 powi (float_exponent x) \<le> \<bar>x\<bar>"
    and "\<bar>x\<bar> < 2 powi (float_exponent x + 1)"
    and "- 1022 \<le> float_exponent x"
    and "float_exponent x \<le> 1023"
proof -
  let ?e = "exponent_search 2200 \<bar>x\<bar>"
  have "(2::real) powi (- 2200) \<le> 2 powi (- 1022)"
    by (rule power_int_increasing) simp_all
  with assms(1) have "1 / 2 ^ 2200 \<le> \<bar>x\<bar>"
    by (simp add: power_int_minus divide_simps)
  then have a: "1 \<le> \<bar>x\<bar> * 2 ^ 2200"
    by (simp add: divide_simps)
  have "(2::real) powi 1024 \<le> 2 powi 2201"
    by (rule power_int_increasing) simp_all
  with assms(2) have b: "\<bar>x\<bar> < 2 ^ Suc 2200"
    by simp
  from exponent_search_bounds [OF a b]
  have lo: "2 powi ?e \<le> \<bar>x\<bar>" and hi: "\<bar>x\<bar> < 2 powi (?e + 1)" by simp_all
  have ge: "- 1022 \<le> ?e"
  proof (rule ccontr)
    assume "\<not> - 1022 \<le> ?e"
    then have "?e + 1 \<le> - 1022" by simp
    then have "(2::real) powi (?e + 1) \<le> 2 powi (- 1022)"
      by (rule power_int_increasing) simp
    with hi assms(1) show False by simp
  qed
  have le: "?e \<le> 1023"
  proof (rule ccontr)
    assume "\<not> ?e \<le> 1023"
    then have "1024 \<le> ?e" by simp
    then have "(2::real) powi 1024 \<le> 2 powi ?e"
      by (rule power_int_increasing) simp
    with lo assms(2) show False by simp
  qed
  from ge have eq: "float_exponent x = ?e"
    by (simp add: float_exponent_def)
  from lo hi ge le eq show "2 powi (float_exponent x) \<le> \<bar>x\<bar>"
    and "\<bar>x\<bar> < 2 powi (float_exponent x + 1)"
    and "- 1022 \<le> float_exponent x"
    and "float_exponent x \<le> 1023"
    by simp_all
qed

text \<open>The exponent is the only one that brackets the number.\<close>

lemma float_exponent_eq:
  assumes "2 powi e \<le> \<bar>x\<bar>" and "\<bar>x\<bar> < 2 powi (e + 1)" and "- 1022 \<le> e" and "e \<le> 1023"
  shows "float_exponent x = e"
proof -
  have "(2::real) powi (- 1022) \<le> 2 powi e"
    using assms(3) by (intro power_int_increasing) simp_all
  with assms(1) have lo: "2 powi (- 1022) \<le> \<bar>x\<bar>" by simp
  have "(2::real) powi (e + 1) \<le> 2 powi 1024"
    using assms(4) by (intro power_int_increasing) simp_all
  with assms(2) have hi: "\<bar>x\<bar> < 2 powi 1024" by simp
  let ?f = "float_exponent x"
  note fb = float_exponent_bounds [OF lo hi]
  have "\<not> ?f < e"
  proof
    assume "?f < e"
    then have "(2::real) powi (?f + 1) \<le> 2 powi e"
      by (intro power_int_increasing) simp_all
    with fb(2) assms(1) show False by simp
  qed
  moreover have "\<not> e < ?f"
  proof
    assume "e < ?f"
    then have "(2::real) powi (e + 1) \<le> 2 powi ?f"
      by (intro power_int_increasing) simp_all
    with fb(1) assms(2) show False by simp
  qed
  ultimately show ?thesis by simp
qed

lemma round64_error:
  assumes "2 powi (- 1022) \<le> \<bar>x\<bar>" and "\<bar>x\<bar> \<le> 2 powi 1023"
  shows "\<exists>r. round64 x = Finite r \<and> \<bar>r - x\<bar> \<le> \<bar>x\<bar> / 2 ^ 53"
proof -
  have "(2::real) powi 1023 < 2 powi 1024"
    by (rule power_int_strict_increasing) simp_all
  with assms(2) have hi: "\<bar>x\<bar> < 2 powi 1024" by simp
  note fb = float_exponent_bounds [OF assms(1) hi]
  define e where "e = float_exponent x"
  define u :: real where "u = 2 powi (e - 52)"
  define r where "r = u * of_int (round_half_even (x / u))"
  have u_pos: "0 < u" by (simp add: u_def)
  have "r - x = u * (of_int (round_half_even (x / u)) - x / u)"
    using u_pos by (simp add: r_def right_diff_distrib)
  then have "\<bar>r - x\<bar> = u * \<bar>of_int (round_half_even (x / u)) - x / u\<bar>"
    using u_pos by (simp add: abs_mult)
  also have "\<dots> \<le> u * (1/2)"
    using u_pos round_half_even_error [of "x / u"] by (intro mult_left_mono) simp_all
  also have "u * (1/2) = 2 powi e / 2 ^ 53"
    by (simp add: u_def power_int_diff)
  also have "\<dots> \<le> \<bar>x\<bar> / 2 ^ 53"
    using fb(1) by (simp add: e_def divide_right_mono)
  finally have err: "\<bar>r - x\<bar> \<le> \<bar>x\<bar> / 2 ^ 53" .
  have "\<bar>r\<bar> \<le> \<bar>x\<bar> + \<bar>r - x\<bar>" by simp
  also have "\<dots> \<le> \<bar>x\<bar> + \<bar>x\<bar> / 2 ^ 53" using err by simp
  also have "\<dots> \<le> 2 powi 1023 + 2 powi 1023 / 2 ^ 53"
    using assms(2) by (intro add_mono divide_right_mono) simp_all
  also have "\<dots> < 2 ^ 1024" by simp
  finally have no_overflow: "\<not> 2 ^ 1024 \<le> \<bar>r\<bar>" by simp
  have "x \<noteq> 0" using assms(1) by auto
  then have "round64 x = Finite r"
    using no_overflow by (simp add: round64_def Let_def r_def u_def e_def)
  with err show ?thesis by blast
qed

lemma round64_eval:
  assumes "2 powi e \<le> \<bar>x\<bar>" and "\<bar>x\<bar> < 2 powi (e + 1)" and "- 1022 \<le> e" and "e \<le> 1022"
  shows "round64 x = Finite (2 powi (e - 52) * of_int (round_half_even (x / 2 powi (e - 52))))"
proof -
  have e: "float_exponent x = e"
    using assms by (intro float_exponent_eq) simp_all
  have "(2::real) powi (- 1022) \<le> 2 powi e"
    using assms(3) by (intro power_int_increasing) simp_all
  with assms(1) have lo: "2 powi (- 1022) \<le> \<bar>x\<bar>" by simp
  have "(2::real) powi (e + 1) \<le> 2 powi 1023"
    using assms(4) by (intro power_int_increasing) simp_all
  with assms(2) have hi: "\<bar>x\<bar> \<le> 2 powi 1023" by simp
  from round64_error [OF lo hi] obtain r where r: "round64 x = Finite r" by blast
  have "x \<noteq> 0" using lo by auto
  with r e show ?thesis
    by (auto simp: round64_def Let_def split: if_splits)
qed

lemma round64_factor:
  assumes "2 powi (- 1022) \<le> \<bar>x\<bar>" and "\<bar>x\<bar> \<le> 2 powi 1023"
  shows "\<exists>f. round64 x = Finite (x * f) \<and> 1 - 1 / 2 ^ 53 \<le> f \<and> f \<le> 1 + 1 / 2 ^ 53"
proof -
  have "(0::real) < 2 powi (- 1022)" by simp
  with assms(1) have nz: "x \<noteq> 0" by auto
  from round64_error [OF assms] obtain r
    where r: "round64 x = Finite r" and e: "\<bar>r - x\<bar> \<le> \<bar>x\<bar> / 2 ^ 53"
    by blast
  define f where "f = r / x"
  have rf: "r = x * f" using nz by (simp add: f_def)
  have "\<bar>f - 1\<bar> = \<bar>r - x\<bar> / \<bar>x\<bar>"
    using nz by (simp add: f_def abs_divide [symmetric] diff_divide_distrib)
  also have "\<dots> \<le> (\<bar>x\<bar> / 2 ^ 53) / \<bar>x\<bar>"
    using e by (intro divide_right_mono) simp_all
  also have "\<dots> = 1 / 2 ^ 53"
    using nz by simp
  finally have "\<bar>f - 1\<bar> \<le> 1 / 2 ^ 53" .
  then have "1 - 1 / 2 ^ 53 \<le> f" and "f \<le> 1 + 1 / 2 ^ 53"
    by (simp_all only: abs_le_iff) linarith+
  with r rf show ?thesis by blast
qed

lemma factor_bounds:
  fixes f1 f2 f3 f4 k0 k1 :: real
  assumes "0 < k0" "k0 \<le> k1"
    and "k0 \<le> f1" "f1 \<le> k1" "k0 \<le> f2" "f2 \<le> k1"
    and "k0 \<le> f3" "f3 \<le> k1" "k0 \<le> f4" "f4 \<le> k1"
  shows "k0 * (k0\<^sup>2 / k1) \<le> f1 * f2 * f4 / f3"
    and "f1 * f2 * f4 / f3 \<le> k1 * (k1\<^sup>2 / k0)"
proof -
  have pos: "0 < f1" "0 < f2" "0 < f3" "0 < f4" "0 < k1"
    using assms by linarith+
  have "k0 * k0 \<le> f1 * f2"
    using assms pos by (intro mult_mono) simp_all
  then have "k0 * k0 * k0 \<le> f1 * f2 * f4"
    using assms pos by (intro mult_mono) simp_all
  then have "k0 * k0 * k0 / k1 \<le> f1 * f2 * f4 / f3"
    using assms pos by (intro frac_le) simp_all
  then show "k0 * (k0\<^sup>2 / k1) \<le> f1 * f2 * f4 / f3"
    by (simp add: power2_eq_square)
  have "f1 * f2 \<le> k1 * k1"
    using assms pos by (intro mult_mono) simp_all
  then have "f1 * f2 * f4 \<le> k1 * k1 * k1"
    using assms pos by (intro mult_mono) simp_all
  then have "f1 * f2 * f4 / f3 \<le> k1 * k1 * k1 / k0"
    using assms pos by (intro frac_le) simp_all
  then show "f1 * f2 * f4 / f3 \<le> k1 * (k1\<^sup>2 / k0)"
    by (simp add: power2_eq_square)
qed

lemma abs_range_mult:
  fixes x f lo hi :: real
  assumes "lo \<le> \<bar>x\<bar>" "\<bar>x\<bar> \<le> hi" "1 / 2 \<le> f" "f \<le> 2" "0 \<le> lo"
  shows "lo / 2 \<le> \<bar>x * f\<bar>" and "\<bar>x * f\<bar> \<le> 2 * hi"
proof -
  have f: "0 < f" "\<bar>f\<bar> = f" using assms(3) by linarith+
  have "lo * (1 / 2) \<le> \<bar>x\<bar> * f"
    using assms by (intro mult_mono) simp_all
  then show "lo / 2 \<le> \<bar>x * f\<bar>" by (simp add: abs_mult f)
  have "\<bar>x\<bar> * f \<le> hi * 2"
    using assms f by (intro mult_mono) simp_all
  then show "\<bar>x * f\<bar> \<le> 2 * hi" by (simp add: abs_mult f)
qed


lemma unit_roundoff_facts:
  defines "k0 \<equiv> 1 - 1 / 2 ^ 53 :: real" and "k1 \<equiv> 1 + 1 / 2 ^ 53 :: real"
  shows "0 < k0" "1 \<le> k1" "1 / 2 \<le> k0" "k1 \<le> 2"
    "k1 * (k1\<^sup>2 / k0) \<le> 1 + 1 / 2 ^ 50"
    "1 - 1 / 2 ^ 50 \<le> k0 * (k0\<^sup>2 / k1)"
    "1 / 8 \<le> k0\<^sup>2 / k1" "k1\<^sup>2 / k0 \<le> 8"
  by (simp_all add: k0_def k1_def power2_eq_square)



lemma fmul_finite: "fmul (Finite a) (Finite b) = round64 (a * b)"
  by (simp add: fmul_def)

lemma fadd_finite: "fadd (Finite a) (Finite b) = round64 (a + b)"
  by (simp add: fadd_def)

lemma fsub_finite: "fsub (Finite a) (Finite b) = round64 (a - b)"
  by (simp add: fsub_def fadd_def)

lemma fdiv_finite: "b \<noteq> 0 \<Longrightarrow> fdiv (Finite a) (Finite b) = round64 (a / b)"
  by (simp add: fdiv_def)

lemmas float_ops = fmul_finite fadd_finite fsub_finite fdiv_finite

text \<open>The floats and the operations that occur in the examples below.\<close>

lemma float_091: "round64 (91 / 100) = Finite (8196551321814303 / 9007199254740992)"
  by (subst round64_eval [of "- 1"]) (simp_all add: round_half_even_def power_int_minus)

lemma float_089: "round64 (89 / 100) = Finite (8016407336719483 / 9007199254740992)"
  by (subst round64_eval [of "- 1"]) (simp_all add: round_half_even_def power_int_minus)

lemma float_06: "round64 (3 / 5) = Finite (5404319552844595 / 9007199254740992)"
  by (subst round64_eval [of "- 1"]) (simp_all add: round_half_even_def power_int_minus)

lemma float_005: "round64 (1 / 20) = Finite (3602879701896397 / 72057594037927936)"
  by (subst round64_eval [of "- 5"]) (simp_all add: round_half_even_def power_int_minus)

lemma product_091_089: "fmul (Finite (8196551321814303 / 9007199254740992)) (Finite (8016407336719483 / 9007199254740992)) = Finite (3647465338207365 / 4503599627370496)"
  by (simp add: float_ops)
    (subst round64_eval [of "- 1"], simp_all add: round_half_even_def power_int_minus)

lemma double_091_089: "fmul (Finite 2) (Finite (3647465338207365 / 4503599627370496)) = Finite (3647465338207365 / 2251799813685248)"
  by (simp add: float_ops)
    (subst round64_eval [of "0"], simp_all add: round_half_even_def power_int_minus)

lemma sum_091_089: "fadd (Finite (8196551321814303 / 9007199254740992)) (Finite (8016407336719483 / 9007199254740992)) = Finite (8106479329266893 / 4503599627370496)"
  by (simp add: float_ops)
    (subst round64_eval [of "0"], simp_all add: round_half_even_def power_int_minus)

lemma quotient_091_089: "fdiv (Finite (3647465338207365 / 2251799813685248)) (Finite (8106479329266893 / 4503599627370496)) = Finite (2026369632337425 / 2251799813685248)"
  by (simp add: float_ops)
    (subst round64_eval [of "- 1"], simp_all add: round_half_even_def power_int_minus)

lemma difference_089_091: "fsub (Finite (8016407336719483 / 9007199254740992)) (Finite (8196551321814303 / 9007199254740992)) = Finite (- (45035996273705 / 2251799813685248))"
  by (simp add: float_ops)
    (subst round64_eval [of "- 6"], simp_all add: round_half_even_def power_int_minus)

lemma float_08: "round64 (4 / 5) = Finite (3602879701896397 / 4503599627370496)"
  by (subst round64_eval [of "- 1"]) (simp_all add: round_half_even_def power_int_minus)

lemma product_08_08: "fmul (Finite (3602879701896397 / 4503599627370496)) (Finite (3602879701896397 / 4503599627370496)) = Finite (1441151880758559 / 2251799813685248)"
  by (simp add: float_ops)
    (subst round64_eval [of "- 1"], simp_all add: round_half_even_def power_int_minus)

lemma double_08_08: "fmul (Finite 2) (Finite (1441151880758559 / 2251799813685248)) = Finite (1441151880758559 / 1125899906842624)"
  by (simp add: float_ops)
    (subst round64_eval [of "0"], simp_all add: round_half_even_def power_int_minus)

lemma sum_08_08: "fadd (Finite (3602879701896397 / 4503599627370496)) (Finite (3602879701896397 / 4503599627370496)) = Finite (3602879701896397 / 2251799813685248)"
  by (simp add: float_ops)
    (subst round64_eval [of "0"], simp_all add: round_half_even_def power_int_minus)

lemma quotient_08_08: "fdiv (Finite (1441151880758559 / 1125899906842624)) (Finite (3602879701896397 / 2251799813685248)) = Finite (7205759403792795 / 9007199254740992)"
  by (simp add: float_ops)
    (subst round64_eval [of "- 1"], simp_all add: round_half_even_def power_int_minus)


section \<open>The comparison of regression models\<close>

text \<open>The definition of the function does not compile, whatever it is called with.\<close>

lemma evaluate_regression_model_does_not_compile:
  "evaluate_regression_model sc model_list X_train y_train X_test y_test base_accuracy
   = Inl (SyntaxError ''keyword argument repeated: model_accuracy'')"
  by (simp add: evaluate_regression_model_def compile_evaluate_regression_model_def
      MetricInfoArtifact_call_keywords_def)

text \<open>The division of line 119 on built-in floats that add up to zero.\<close>

lemma model_accuracy_of_zero_sum:
  "a + b = 0 \<Longrightarrow> model_accuracy_of PyFloat (Finite a) (Finite b) = Inl ZeroDivisionError"
  by (simp add: model_accuracy_of_def truediv_def fadd_finite round64_def)

text \<open>In the body of the loop, a candidate whose two scores are built-in floats that add
  up to zero raises \<^verbatim>\<open>ZeroDivisionError\<close> on line 119.\<close>

lemma evaluate_model_zero_sum:
  assumes "predict sc mdl X_train = Inr y_train_pred"
    and "predict sc mdl X_test = Inr y_test_pred"
    and "r2_score sc y_train y_train_pred = Inr (Finite a)"
    and "r2_score sc y_test y_test_pred = Inr (Finite b)"
    and "mean_squared_error sc y_train y_train_pred = Inr train_mse"
    and "mean_squared_error sc y_test y_test_pred = Inr test_mse"
    and "score_kind sc = PyFloat"
    and "a + b = 0"
  shows "evaluate_model sc X_train y_train X_test y_test index_number state mdl
         = Inl ZeroDivisionError"
  using assms by (simp add: evaluate_model_def model_accuracy_of_zero_sum)

text \<open>The candidate with train accuracy \<^verbatim>\<open>0.91\<close> and test accuracy \<^verbatim>\<open>0.89\<close> passes the
  test of line 136 against the floor \<^verbatim>\<open>0.6\<close>.\<close>

lemma candidate_091_089_qualifies:
  "model_accuracy_of PyFloat (round64 0.91) (round64 0.89)
     = Inr (Finite (2026369632337425 / 2251799813685248))
   \<and> fle (round64 0.6) (Finite (2026369632337425 / 2251799813685248))
   \<and> flt (fabs (fsub (round64 0.89) (round64 0.91))) (round64 0.05)"
  by (simp add: float_091 float_089 float_06 float_005 model_accuracy_of_def truediv_def
      product_091_089 double_091_089 sum_091_089 quotient_091_089 difference_089_091
      fle_def flt_def)

text \<open>
  C5 (the code departs from the claim). A single candidate with train accuracy \<^verbatim>\<open>0.91\<close>
  and test accuracy \<^verbatim>\<open>0.89\<close> qualifies against the base accuracy \<^verbatim>\<open>0.6\<close>: its combined
  accuracy is above the floor and the two accuracies differ by less than \<^verbatim>\<open>0.05\<close>. The
  claim has the function return the report of this candidate. The call that builds the
  report repeats the keyword \<^verbatim>\<open>model_accuracy\<close>, so the function is rejected by the
  compiler and returns no report.
\<close>

theorem qualifying_candidate_yields_no_report:
  "fle (round64 0.6) (Finite (2026369632337425 / 2251799813685248))
   \<and> flt (fabs (fsub (round64 0.89) (round64 0.91))) (round64 0.05)
   \<and> model_accuracy_of PyFloat (round64 0.91) (round64 0.89)
       = Inr (Finite (2026369632337425 / 2251799813685248))
   \<and> evaluate_regression_model toy_scoring [(''a'', round64 0.91, round64 0.89)]
       Train () Test () (round64 0.6)
     = Inl (SyntaxError ''keyword argument repeated: model_accuracy'')"
  using candidate_091_089_qualifies
  by (simp add: evaluate_regression_model_does_not_compile)

text \<open>
  C6 (the code departs from the claim). The second candidate has train accuracy \<^verbatim>\<open>0.5\<close>
  and test accuracy \<^verbatim>\<open>-0.5\<close>, which add up to zero, and the division of line 119 does
  raise \<^verbatim>\<open>ZeroDivisionError\<close> on them. The function does not fail with it: its
  definition is rejected by the compiler, for the repeated keyword of lines 138-145.
\<close>

theorem zero_sum_candidate_is_not_reached:
  "model_accuracy_of PyFloat (Finite (1 / 2)) (Finite (- (1 / 2))) = Inl ZeroDivisionError
   \<and> evaluate_regression_model toy_scoring
       [(''a'', round64 0.91, round64 0.89), (''b'', Finite (1 / 2), Finite (- (1 / 2)))]
       Train () Test () (round64 0.6)
     = Inl (SyntaxError ''keyword argument repeated: model_accuracy'')"
  by (simp add: evaluate_regression_model_does_not_compile model_accuracy_of_zero_sum)

section \<open>The combined accuracy\<close>

lemma model_accuracy_of_08:
  "model_accuracy_of kind (Finite (3602879701896397 / 4503599627370496))
     (Finite (3602879701896397 / 4503599627370496))
   = Inr (Finite (7205759403792795 / 9007199254740992))"
  by (simp add: model_accuracy_of_def truediv_def product_08_08 double_08_08 sum_08_08
      quotient_08_08)

text \<open>
  C7 (counterexample). With train accuracy and test accuracy both \<^verbatim>\<open>0.8\<close>, that is the
  float \<open>3602879701896397 / 2 ^ 52\<close>, line 119 computes the next float but one above it,
  which Python prints as \<^verbatim>\<open>0.8000000000000002\<close>: the combined accuracy is not the common
  value.
\<close>

theorem combined_accuracy_of_equal_inputs_counterexample:
  "round64 0.8 = Finite (3602879701896397 / 4503599627370496)
   \<and> model_accuracy_of PyFloat (round64 0.8) (round64 0.8)
       = Inr (Finite (7205759403792795 / 9007199254740992))
   \<and> model_accuracy_of PyFloat (round64 0.8) (round64 0.8) \<noteq> Inr (round64 0.8)"
  by (simp add: float_08 model_accuracy_of_08)

text \<open>
  C7 (as amended). For train and test accuracies of magnitude between \<open>2 powi (- 250)\<close>
  and \<open>2 powi 250\<close>, of any sign, whose sum has a magnitude of at least \<open>2 powi (- 250)\<close>,
  and for either kind of float, line 119 returns a finite float that is the harmonic mean
  \<open>2 * (train * test) / (train + test)\<close> up to the rounding of its four operations: the
  two differ by at most the \<open>2 ^ 50\<close>-th part of the harmonic mean. In particular, when
  the two accuracies are equal, the combined accuracy is within that distance of the
  common value.
\<close>

theorem model_accuracy_of_rounding_error:
  assumes a: "2 powi (- 250) \<le> \<bar>a\<bar>" "\<bar>a\<bar> \<le> 2 powi 250"
    and b: "2 powi (- 250) \<le> \<bar>b\<bar>" "\<bar>b\<bar> \<le> 2 powi 250"
    and ab: "2 powi (- 250) \<le> \<bar>a + b\<bar>"
  shows "(\<exists>q. model_accuracy_of kind (Finite a) (Finite b) = Inr (Finite q)
            \<and> \<bar>q - 2 * (a * b) / (a + b)\<bar> \<le> \<bar>2 * (a * b) / (a + b)\<bar> / 2 ^ 50)
         \<and> (a = b \<longrightarrow>
              (\<exists>q. model_accuracy_of kind (Finite a) (Finite b) = Inr (Finite q)
                 \<and> \<bar>q - a\<bar> \<le> \<bar>a\<bar> / 2 ^ 50))"
proof -
  define k0 :: real where "k0 = 1 - 1 / 2 ^ 53"
  define k1 :: real where "k1 = 1 + 1 / 2 ^ 53"
  define lo :: real where "lo = 2 powi (- 250)"
  define hi :: real where "hi = 2 powi 250"
  define H where "H = 2 * (a * b) / (a + b)"
  note k = unit_roundoff_facts [folded k0_def k1_def]
  have k01: "k0 \<le> k1" by (simp add: k0_def k1_def)
  have lo_pos: "0 < lo" and hi_pos: "0 < hi" by (simp_all add: lo_def hi_def)
  have sum_nz: "a + b \<noteq> 0" using ab lo_pos by (auto simp: lo_def)
  have half: "\<And>f. k0 \<le> f \<Longrightarrow> 1 / 2 \<le> f" and twice: "\<And>f. f \<le> k1 \<Longrightarrow> f \<le> 2"
    using k(3,4) by linarith+
  \<comment> \<open>the product\<close>
  have "lo * lo \<le> \<bar>a\<bar> * \<bar>b\<bar>"
    using a(1) b(1) lo_pos by (intro mult_mono) (simp_all add: lo_def)
  moreover have "lo * lo = 2 powi (- 500)"
    by (simp add: lo_def flip: power_int_add)
  ultimately have prod_lo: "2 powi (- 500) \<le> \<bar>a * b\<bar>" by (simp add: abs_mult)
  have "\<bar>a\<bar> * \<bar>b\<bar> \<le> hi * hi"
    using a(2) b(2) by (intro mult_mono) (simp_all add: hi_def)
  moreover have "hi * hi = 2 powi 500"
    by (simp add: hi_def flip: power_int_add)
  ultimately have prod_hi: "\<bar>a * b\<bar> \<le> 2 powi 500" by (simp add: abs_mult)
  have "(2::real) powi (- 1022) \<le> 2 powi (- 500)" and "(2::real) powi 500 \<le> 2 powi 1023"
    by (rule powi_le, simp)+
  with prod_lo prod_hi have "2 powi (- 1022) \<le> \<bar>a * b\<bar>" and "\<bar>a * b\<bar> \<le> 2 powi 1023"
    by linarith+
  from round64_factor [OF this] obtain f1
    where f1: "round64 (a * b) = Finite (a * b * f1)" "k0 \<le> f1" "f1 \<le> k1"
    unfolding k0_def k1_def by blast
  define p where "p = a * b * f1"
  \<comment> \<open>its double\<close>
  have p_range: "2 powi (- 500) / 2 \<le> \<bar>p\<bar>" "\<bar>p\<bar> \<le> 2 * 2 powi 500"
    unfolding p_def
    using abs_range_mult [OF prod_lo prod_hi half [OF f1(2)] twice [OF f1(3)]] by simp_all
  then have dbl_range: "2 powi (- 500) \<le> \<bar>2 * p\<bar>" "\<bar>2 * p\<bar> \<le> 4 * 2 powi 500"
    by (simp_all add: abs_mult)
  have four: "(4::real) * 2 powi 500 = 2 powi 502"
    by (simp add: power_int_add [of 2 2 500, simplified])
  have "(2::real) powi (- 1022) \<le> 2 powi (- 500)" and "(2::real) powi 502 \<le> 2 powi 1023"
    by (rule powi_le, simp)+
  with dbl_range four have "2 powi (- 1022) \<le> \<bar>2 * p\<bar>" and "\<bar>2 * p\<bar> \<le> 2 powi 1023"
    by linarith+
  from round64_factor [OF this] obtain f2
    where f2: "round64 (2 * p) = Finite (2 * p * f2)" "k0 \<le> f2" "f2 \<le> k1"
    unfolding k0_def k1_def by blast
  define d where "d = 2 * p * f2"
  have d_range: "2 powi (- 500) / 2 \<le> \<bar>d\<bar>" "\<bar>d\<bar> \<le> 2 * 2 powi 502"
    unfolding d_def
    using abs_range_mult [OF dbl_range(1) _ half [OF f2(2)] twice [OF f2(3)], of "2 powi 502"]
      dbl_range(2) four by simp_all
  \<comment> \<open>the sum\<close>
  have "\<bar>a + b\<bar> \<le> \<bar>a\<bar> + \<bar>b\<bar>" by simp
  also have "\<dots> \<le> hi + hi" using a(2) b(2) by (simp add: hi_def)
  also have "hi + hi = 2 powi 251"
    by (simp add: hi_def power_int_add [of 2 1 250, simplified])
  finally have sum_hi: "\<bar>a + b\<bar> \<le> 2 powi 251" .
  have "(2::real) powi (- 1022) \<le> 2 powi (- 250)" and "(2::real) powi 251 \<le> 2 powi 1023"
    by (rule powi_le, simp)+
  with ab sum_hi have "2 powi (- 1022) \<le> \<bar>a + b\<bar>" and "\<bar>a + b\<bar> \<le> 2 powi 1023"
    by linarith+
  from round64_factor [OF this] obtain f3
    where f3: "round64 (a + b) = Finite ((a + b) * f3)" "k0 \<le> f3" "f3 \<le> k1"
    unfolding k0_def k1_def by blast
  define s where "s = (a + b) * f3"
  have s_range: "2 powi (- 250) / 2 \<le> \<bar>s\<bar>" "\<bar>s\<bar> \<le> 2 * 2 powi 251"
    unfolding s_def
    using abs_range_mult [OF ab sum_hi half [OF f3(2)] twice [OF f3(3)]] by simp_all
  have f_pos: "0 < f1" "0 < f2" "0 < f3"
    using f1(2) f2(2) f3(2) k(1) by linarith+
  have s_nz: "s \<noteq> 0" using sum_nz f_pos by (simp add: s_def)
  \<comment> \<open>the quotient\<close>
  have s_pos: "0 < \<bar>s\<bar>" using s_nz by simp
  have "2 powi (- 500) / 2 / (2 * 2 powi 251) \<le> \<bar>d\<bar> / \<bar>s\<bar>"
    using d_range(1) s_range(2) s_pos by (intro frac_le) simp_all
  moreover have "2 powi (- 500) / 2 / (2 * 2 powi 251) = (2::real) powi (- 753)"
    by (simp add: power_int_diff [of 2 "- 500" 253, simplified]
        power_int_add [of 2 2 251, simplified])
  ultimately have quot_lo: "2 powi (- 753) \<le> \<bar>d / s\<bar>" by simp
  have "0 < (2::real) powi (- 250) / 2" by simp
  then have "\<bar>d\<bar> / \<bar>s\<bar> \<le> 2 * 2 powi 502 / (2 powi (- 250) / 2)"
    using d_range(2) s_range(1) by (intro frac_le) simp_all
  moreover have "2 * 2 powi 502 / (2 powi (- 250) / 2) = (2::real) powi 754"
    by (simp add: power_int_diff [of 2 504 "- 250", simplified]
        power_int_add [of 2 2 502, simplified])
  ultimately have quot_hi: "\<bar>d / s\<bar> \<le> 2 powi 754" by simp
  have "(2::real) powi (- 1022) \<le> 2 powi (- 753)" and "(2::real) powi 754 \<le> 2 powi 1023"
    by (rule powi_le, simp)+
  with quot_lo quot_hi have "2 powi (- 1022) \<le> \<bar>d / s\<bar>" and "\<bar>d / s\<bar> \<le> 2 powi 1023"
    by linarith+
  from round64_factor [OF this] obtain f4
    where f4: "round64 (d / s) = Finite (d / s * f4)" "k0 \<le> f4" "f4 \<le> k1"
    unfolding k0_def k1_def by blast
  define q where "q = d / s * f4"
  \<comment> \<open>the result and its distance from the harmonic mean\<close>
  have result: "model_accuracy_of kind (Finite a) (Finite b) = Inr (Finite q)"
    using f1(1) f2(1) f3(1) f4(1) s_nz
    by (simp add: model_accuracy_of_def truediv_def float_ops p_def [symmetric]
        d_def [symmetric] s_def [symmetric] q_def)
  define F where "F = f1 * f2 * f4 / f3"
  have qF: "q = H * F"
    using sum_nz f_pos by (simp add: q_def d_def p_def s_def H_def F_def)
  from factor_bounds [OF k(1) k01 f1(2,3) f2(2,3) f3(2,3) f4(2,3)] k(5,6)
  have "1 - 1 / 2 ^ 50 \<le> F" and "F \<le> 1 + 1 / 2 ^ 50"
    unfolding F_def by linarith+
  then have "\<bar>F - 1\<bar> \<le> 1 / 2 ^ 50"
    by (simp only: abs_le_iff) linarith
  then have "\<bar>H\<bar> * \<bar>F - 1\<bar> \<le> \<bar>H\<bar> * (1 / 2 ^ 50)"
    by (intro mult_left_mono) simp_all
  moreover have "q - H = H * (F - 1)"
    by (simp add: qF right_diff_distrib)
  ultimately have err: "\<bar>q - H\<bar> \<le> \<bar>H\<bar> / 2 ^ 50"
    by (simp only: abs_mult times_divide_eq_right mult_1_right)
  from result err have general:
    "\<exists>q. model_accuracy_of kind (Finite a) (Finite b) = Inr (Finite q)
       \<and> \<bar>q - 2 * (a * b) / (a + b)\<bar> \<le> \<bar>2 * (a * b) / (a + b)\<bar> / 2 ^ 50"
    unfolding H_def by blast
  have "\<exists>q. model_accuracy_of kind (Finite a) (Finite b) = Inr (Finite q)
          \<and> \<bar>q - a\<bar> \<le> \<bar>a\<bar> / 2 ^ 50" if "a = b"
  proof -
    have "H = a"
      using sum_nz that by (simp add: H_def field_simps)
    with result err show ?thesis by blast
  qed
  with general show ?thesis by blast
qed

theorem model_accuracy_of_rounding_error_witness:
  "2 powi (- 250) \<le> \<bar>3602879701896397 / 4503599627370496 :: real\<bar>
   \<and> \<bar>3602879701896397 / 4503599627370496 :: real\<bar> \<le> 2 powi 250
   \<and> 2 powi (- 250)
       \<le> \<bar>3602879701896397 / 4503599627370496 + 3602879701896397 / 4503599627370496 :: real\<bar>
   \<and> (\<exists>q. model_accuracy_of PyFloat (Finite (3602879701896397 / 4503599627370496))
              (Finite (3602879701896397 / 4503599627370496)) = Inr (Finite q)
          \<and> \<bar>q - 3602879701896397 / 4503599627370496\<bar>
              \<le> \<bar>3602879701896397 / 4503599627370496\<bar> / 2 ^ 50)"
proof -
  have small: "(2::real) powi (- 250) \<le> 2 powi (- 1)" by (rule powi_le) simp
  have lo: "2 powi (- 250) \<le> \<bar>3602879701896397 / 4503599627370496 :: real\<bar>"
  proof -
    have "(2::real) powi (- 1) \<le> \<bar>3602879701896397 / 4503599627370496\<bar>"
      by (simp add: power_int_minus)
    with small show ?thesis by linarith
  qed
  have hi: "\<bar>3602879701896397 / 4503599627370496 :: real\<bar> \<le> 2 powi 250"
  proof -
    have "\<bar>3602879701896397 / 4503599627370496 :: real\<bar> \<le> 2 powi 0" by simp
    also have "\<dots> \<le> 2 powi 250" by (rule powi_le) simp
    finally show ?thesis .
  qed
  have sum: "2 powi (- 250)
      \<le> \<bar>3602879701896397 / 4503599627370496 + 3602879701896397 / 4503599627370496 :: real\<bar>"
  proof -
    have "(2::real) powi (- 1)
        \<le> \<bar>3602879701896397 / 4503599627370496 + 3602879701896397 / 4503599627370496\<bar>"
      by (simp add: power_int_minus)
    with small show ?thesis by linarith
  qed
  from model_accuracy_of_rounding_error [OF lo hi lo hi sum, of PyFloat] lo hi sum
  show ?thesis by blast
qed

end
